theory Spec2Isabelle
  imports Main "HOL-Library.Word"
begin

section \<open>The revision controller of library-go's static pod operator\<close>

text \<open>
  A shallow embedding of
  \<^verbatim>\<open>pkg/operator/staticpod/controller/revision/deployment_controller.go\<close>:
  \<^verbatim>\<open>nameFor\<close>, \<^verbatim>\<open>isLatestRevisionCurrent\<close>, \<^verbatim>\<open>createNewRevision\<close>,
  \<^verbatim>\<open>createRevisionIfNeeded\<close> and \<^verbatim>\<open>sync\<close>.

  The controller talks to two collaborators whose code is not part of the file: the
  Kubernetes client (config maps and secrets) and the operator client (spec and status).
  They are parameters of the model: a record of functions over an arbitrary world
  \<open>'w\<close>. Reads are functions of the world, writes return the next world. Every write
  and every recorded event is appended to a trace, in the order the code issues them.
\<close>

subsection \<open>Data\<close>

type_synonym int32 = "32 word"

text \<open>
  A Go \<^verbatim>\<open>error\<close>. \<open>NotFound resource name message\<close> is an API error whose reason is
  NotFound, with the resource and the name it is about and its message;
  \<^verbatim>\<open>apierrors.NewNotFound(corev1.Resource(resource), name)\<close> builds one from the two
  arguments the call passes. \<open>OtherError message\<close> is any other error (what
  \<^verbatim>\<open>fmt.Errorf\<close> builds, or a failure of a collaborator), with its message. The nil error
  is \<open>None :: error option\<close>.
\<close>

datatype error = NotFound string string string | OtherError string

text \<open>\<^verbatim>\<open>apierrors.IsNotFound\<close>: false on the nil error.\<close>

fun IsNotFound :: "error option \<Rightarrow> bool" where
  "IsNotFound (Some (NotFound resource name message)) = True"
| "IsNotFound (Some (OtherError message)) = False"
| "IsNotFound None = False"

text \<open>\<^verbatim>\<open>err.Error()\<close>.\<close>

fun Error :: "error \<Rightarrow> string" where
  "Error (NotFound resource name message) = message"
| "Error (OtherError message) = message"

text \<open>
  \<^verbatim>\<open>corev1.ConfigMap\<close> and \<^verbatim>\<open>corev1.Secret\<close>, with the fields the controller reads or
  writes. \<^verbatim>\<open>Data\<close> is a Go map; a nil map and an empty map are both \<open>Map.empty\<close>,
  and the values of a secret (\<^verbatim>\<open>[]byte\<close>) are byte strings, nil and empty both
  \<open>[]\<close>. \<^verbatim>\<open>equality.Semantic.DeepEqual\<close> makes exactly these identifications, so on
  this representation it is equality.
\<close>

record ConfigMap =
  cm_APIVersion :: string
  cm_Kind :: string
  cm_Namespace :: string
  cm_Name :: string
  cm_UID :: string
  cm_Data :: "string \<rightharpoonup> string"

record Secret =
  sec_APIVersion :: string
  sec_Kind :: string
  sec_Namespace :: string
  sec_Name :: string
  sec_UID :: string
  sec_Data :: "string \<rightharpoonup> string"

record OwnerReference =
  or_APIVersion :: string
  or_Kind :: string
  or_Name :: string
  or_UID :: string

datatype ConditionStatus = ConditionTrue | ConditionFalse | ConditionUnknown

record OperatorCondition =
  cond_Type :: string
  cond_Status :: ConditionStatus
  cond_Reason :: string
  cond_Message :: string

text \<open>
  \<^verbatim>\<open>operatorv1.ManagementState\<close> is a string type with three named constants; any
  other value is \<open>OtherState\<close>.
\<close>

datatype ManagementState = Managed | Unmanaged | Removed | OtherState string

record OperatorSpec =
  ManagementState :: ManagementState

record StaticPodOperatorStatus =
  LatestAvailableRevision :: int32
  Conditions :: "OperatorCondition list"

text \<open>
  The mutators handed to \<^verbatim>\<open>common.UpdateStatus\<close>. The controller builds two kinds:
  \<^verbatim>\<open>common.UpdateConditionFn(cond)\<close>, and the closure of \<^verbatim>\<open>createRevisionIfNeeded\<close>
  that assigns \<^verbatim>\<open>operatorStatus.LatestAvailableRevision = nextRevision\<close>.
\<close>

datatype UpdateStatusFunc =
  UpdateConditionFn OperatorCondition
| SetLatestAvailableRevision int32

text \<open>
  A pointer returned by a collaborator is an \<open>option\<close>: \<open>None\<close> is the nil pointer.
  A result triple is \<^verbatim>\<open>(object, changed, err)\<close> as in Go. \<open>NotFoundMessage resource name\<close>
  is the message \<^verbatim>\<open>apierrors.NewNotFound\<close> formats from its two arguments; that code is
  not in the file either.
\<close>

record 'w Clients =
  GetConfigMap :: "'w \<Rightarrow> string \<Rightarrow> string \<Rightarrow> ConfigMap option \<times> error option"
  GetSecret :: "'w \<Rightarrow> string \<Rightarrow> string \<Rightarrow> Secret option \<times> error option"
  ApplyConfigMap :: "'w \<Rightarrow> ConfigMap \<Rightarrow> (ConfigMap option \<times> bool \<times> error option) \<times> 'w"
  SyncConfigMap :: "'w \<Rightarrow> string \<Rightarrow> string \<Rightarrow> string \<Rightarrow> string \<Rightarrow> OwnerReference list
     \<Rightarrow> (ConfigMap option \<times> bool \<times> error option) \<times> 'w"
  SyncSecret :: "'w \<Rightarrow> string \<Rightarrow> string \<Rightarrow> string \<Rightarrow> string \<Rightarrow> OwnerReference list
     \<Rightarrow> (Secret option \<times> bool \<times> error option) \<times> 'w"
  OperatorGet :: "'w \<Rightarrow> OperatorSpec option \<times> StaticPodOperatorStatus option \<times> string \<times> error option"
  UpdateStatus :: "'w \<Rightarrow> UpdateStatusFunc list
     \<Rightarrow> (StaticPodOperatorStatus option \<times> bool \<times> error option) \<times> 'w"
  NotFoundMessage :: "string \<Rightarrow> string \<Rightarrow> string"

text \<open>The fields of \<^verbatim>\<open>RevisionController\<close> that are data.\<close>

record RevisionController =
  targetNamespace :: string
  configMaps :: "string list"
  secrets :: "string list"

text \<open>What the controller asks of the outside, in order.\<close>

datatype call =
  ApplyConfigMapCall ConfigMap
| SyncConfigMapCall string string string string "OwnerReference list"
| SyncSecretCall string string string string "OwnerReference list"
| UpdateStatusCall "UpdateStatusFunc list"
| Warningf string string
| Eventf string string

record 'w run =
  world :: 'w
  trace :: "call list"

text \<open>
  A Go function either returns or panics; the only panic of this file is the
  dereference of a nil pointer that a collaborator returned.
\<close>

datatype 'a outcome = NilDeref | Return 'a

subsection \<open>Formatting\<close>

text \<open>\<^verbatim>\<open>%d\<close>: the decimal digits of a signed integer.\<close>

definition digit :: "nat \<Rightarrow> char" where
  "digit n = ''0123456789'' ! n"

function decimal :: "nat \<Rightarrow> string" where
  "decimal n = (if n < 10 then [digit n] else decimal (n div 10) @ [digit (n mod 10)])"
  by pat_completeness auto
termination
  by (relation "measure id") auto

declare decimal.simps [simp del]

definition fmt_d :: "int \<Rightarrow> string" where
  "fmt_d i = (if i < 0 then CHR ''-'' # decimal (nat (- i)) else decimal (nat i))"

definition nameFor :: "string \<Rightarrow> int32 \<Rightarrow> string" where
  "nameFor name revision = name @ ''-'' @ fmt_d (sint revision)"

subsection \<open>isLatestRevisionCurrent\<close>

text \<open>
  \<^verbatim>\<open>if apierrors.IsNotFound(err) { return false, err.Error() }\<close>: \<open>notFoundText err\<close> is
  the text returned when the test holds, \<open>None\<close> when it does not.
\<close>

fun notFoundText :: "error option \<Rightarrow> string option" where
  "notFoundText (Some e) = (if IsNotFound (Some e) then Some (Error e) else None)"
| "notFoundText None = None"

text \<open>
  The two loops. \<open>Return None\<close>: the loop ran to its end; \<open>Return (Some r)\<close>: the
  function returned \<open>r\<close> from inside the loop; \<open>NilDeref\<close>: \<^verbatim>\<open>existing.Data\<close>,
  \<^verbatim>\<open>required.Data\<close> or \<^verbatim>\<open>required.Name\<close> was read through a nil pointer.
\<close>

fun currentConfigMaps ::
  "'w Clients \<Rightarrow> 'w \<Rightarrow> string \<Rightarrow> int32 \<Rightarrow> string list \<Rightarrow> (bool \<times> string) option outcome" where
  "currentConfigMaps k w ns revision [] = Return None"
| "currentConfigMaps k w ns revision (name # names) =
     (case GetConfigMap k w ns name of (required, err) \<Rightarrow>
        (case notFoundText err of
           Some text \<Rightarrow> Return (Some (False, text))
         | None \<Rightarrow>
            (case GetConfigMap k w ns (nameFor name revision) of (existing, err') \<Rightarrow>
               (case notFoundText err' of
                  Some text \<Rightarrow> Return (Some (False, text))
                | None \<Rightarrow>
                   (case (existing, required) of
                      (Some ex, Some req) \<Rightarrow>
                        if cm_Data ex \<noteq> cm_Data req
                        then Return (Some (False, ''configmap/'' @ cm_Name req @ '' has changed''))
                        else currentConfigMaps k w ns revision names
                    | _ \<Rightarrow> NilDeref)))))"

fun currentSecrets ::
  "'w Clients \<Rightarrow> 'w \<Rightarrow> string \<Rightarrow> int32 \<Rightarrow> string list \<Rightarrow> (bool \<times> string) option outcome" where
  "currentSecrets k w ns revision [] = Return None"
| "currentSecrets k w ns revision (name # names) =
     (case GetSecret k w ns name of (required, err) \<Rightarrow>
        (case notFoundText err of
           Some text \<Rightarrow> Return (Some (False, text))
         | None \<Rightarrow>
            (case GetSecret k w ns (nameFor name revision) of (existing, err') \<Rightarrow>
               (case notFoundText err' of
                  Some text \<Rightarrow> Return (Some (False, text))
                | None \<Rightarrow>
                   (case (existing, required) of
                      (Some ex, Some req) \<Rightarrow>
                        if sec_Data ex \<noteq> sec_Data req
                        then Return (Some (False, ''secret/'' @ sec_Name req @ '' has changed''))
                        else currentSecrets k w ns revision names
                    | _ \<Rightarrow> NilDeref)))))"

definition isLatestRevisionCurrent ::
  "'w Clients \<Rightarrow> RevisionController \<Rightarrow> 'w \<Rightarrow> int32 \<Rightarrow> (bool \<times> string) outcome" where
  "isLatestRevisionCurrent k c w revision =
     (case currentConfigMaps k w (targetNamespace c) revision (configMaps c) of
        NilDeref \<Rightarrow> NilDeref
      | Return (Some r) \<Rightarrow> Return r
      | Return None \<Rightarrow>
         (case currentSecrets k w (targetNamespace c) revision (secrets c) of
            NilDeref \<Rightarrow> NilDeref
          | Return (Some r) \<Rightarrow> Return r
          | Return None \<Rightarrow> Return (True, '''')))"

subsection \<open>createNewRevision\<close>

definition statusConfigMapFor :: "RevisionController \<Rightarrow> int32 \<Rightarrow> ConfigMap" where
  "statusConfigMapFor c revision =
     \<lparr>cm_APIVersion = '''', cm_Kind = '''',
      cm_Namespace = targetNamespace c,
      cm_Name = nameFor ''revision-status'' revision,
      cm_UID = '''',
      cm_Data = [''status'' \<mapsto> ''InProgress'', ''revision'' \<mapsto> fmt_d (sint revision)]\<rparr>"

definition ownerRefsOf :: "ConfigMap \<Rightarrow> OwnerReference list" where
  "ownerRefsOf statusConfigMap =
     [\<lparr>or_APIVersion = cm_APIVersion statusConfigMap,
       or_Kind = cm_Kind statusConfigMap,
       or_Name = cm_Name statusConfigMap,
       or_UID = cm_UID statusConfigMap\<rparr>]"

definition logged :: "'w run \<Rightarrow> 'w \<Rightarrow> call \<Rightarrow> 'w run" where
  "logged s w' cl = \<lparr>world = w', trace = trace s @ [cl]\<rparr>"

text \<open>
  The two copy loops. The result is the error the function returns from inside the
  loop, \<open>None\<close> when the loop ran to its end.
\<close>

fun copyConfigMaps ::
  "'w Clients \<Rightarrow> RevisionController \<Rightarrow> int32 \<Rightarrow> OwnerReference list \<Rightarrow> string list
     \<Rightarrow> 'w run \<Rightarrow> error option \<times> 'w run" where
  "copyConfigMaps k c revision ownerRefs [] s = (None, s)"
| "copyConfigMaps k c revision ownerRefs (name # names) s =
     (case SyncConfigMap k (world s) (targetNamespace c) name (targetNamespace c)
             (nameFor name revision) ownerRefs of
        ((obj, changed, err), w') \<Rightarrow>
          (let s' = logged s w' (SyncConfigMapCall (targetNamespace c) name (targetNamespace c)
                                   (nameFor name revision) ownerRefs)
           in case err of
                Some e \<Rightarrow> (Some e, s')
              | None \<Rightarrow>
                 (case obj of
                    None \<Rightarrow> (Some (NotFound ''configmaps'' name (NotFoundMessage k ''configmaps'' name)), s')
                  | Some x \<Rightarrow> copyConfigMaps k c revision ownerRefs names s')))"

fun copySecrets ::
  "'w Clients \<Rightarrow> RevisionController \<Rightarrow> int32 \<Rightarrow> OwnerReference list \<Rightarrow> string list
     \<Rightarrow> 'w run \<Rightarrow> error option \<times> 'w run" where
  "copySecrets k c revision ownerRefs [] s = (None, s)"
| "copySecrets k c revision ownerRefs (name # names) s =
     (case SyncSecret k (world s) (targetNamespace c) name (targetNamespace c)
             (nameFor name revision) ownerRefs of
        ((obj, changed, err), w') \<Rightarrow>
          (let s' = logged s w' (SyncSecretCall (targetNamespace c) name (targetNamespace c)
                                   (nameFor name revision) ownerRefs)
           in case err of
                Some e \<Rightarrow> (Some e, s')
              | None \<Rightarrow>
                 (case obj of
                    None \<Rightarrow> (Some (NotFound ''secrets'' name (NotFoundMessage k ''secrets'' name)), s')
                  | Some x \<Rightarrow> copySecrets k c revision ownerRefs names s')))"

text \<open>
  \<^verbatim>\<open>statusConfigMap, _, err := resourceapply.ApplyConfigMap(...)\<close> assigns the returned
  pointer to \<^verbatim>\<open>statusConfigMap\<close>; the owner reference is read from that object.
\<close>

definition createNewRevision ::
  "'w Clients \<Rightarrow> RevisionController \<Rightarrow> int32 \<Rightarrow> 'w run \<Rightarrow> error option outcome \<times> 'w run" where
  "createNewRevision k c revision s =
     (case ApplyConfigMap k (world s) (statusConfigMapFor c revision) of
        ((statusConfigMap, changed, err), w') \<Rightarrow>
          (let s1 = logged s w' (ApplyConfigMapCall (statusConfigMapFor c revision))
           in case err of
                Some e \<Rightarrow> (Return (Some e), s1)
              | None \<Rightarrow>
                 (case statusConfigMap of
                    None \<Rightarrow> (NilDeref, s1)
                  | Some scm \<Rightarrow>
                     (case copyConfigMaps k c revision (ownerRefsOf scm) (configMaps c) s1 of
                        (Some e, s2) \<Rightarrow> (Return (Some e), s2)
                      | (None, s2) \<Rightarrow>
                         (case copySecrets k c revision (ownerRefsOf scm) (secrets c) s2 of
                            (Some e, s3) \<Rightarrow> (Return (Some e), s3)
                          | (None, s3) \<Rightarrow> (Return None, s3))))))"

subsection \<open>createRevisionIfNeeded\<close>

definition contentCreationError :: "error \<Rightarrow> OperatorCondition" where
  "contentCreationError err =
     \<lparr>cond_Type = ''RevisionControllerFailing'', cond_Status = ConditionTrue,
      cond_Reason = ''ContentCreationError'', cond_Message = Error err\<rparr>"

definition notFailing :: OperatorCondition where
  "notFailing =
     \<lparr>cond_Type = ''RevisionControllerFailing'', cond_Status = ConditionFalse,
      cond_Reason = '''', cond_Message = ''''\<rparr>"

text \<open>
  The result is \<^verbatim>\<open>(requeue, err)\<close>. \<^verbatim>\<open>operatorStatus\<close> is the deep copy of the
  argument; the closure handed to \<^verbatim>\<open>UpdateStatus\<close> has a parameter of the same name,
  which it mutates, so the local copy still holds the revision read at the start when the
  event is formatted. \<^verbatim>\<open>glog.Infof\<close> writes to the process log only and is left out.
\<close>

definition createRevisionIfNeeded ::
  "'w Clients \<Rightarrow> RevisionController \<Rightarrow> OperatorSpec \<Rightarrow> StaticPodOperatorStatus option \<Rightarrow> string
     \<Rightarrow> 'w run \<Rightarrow> (bool \<times> error option) outcome \<times> 'w run" where
  "createRevisionIfNeeded k c operatorSpec operatorStatusOriginal resourceVersion s =
     (case operatorStatusOriginal of
        None \<Rightarrow> (NilDeref, s)
      | Some operatorStatus \<Rightarrow>
         (let latestRevision = LatestAvailableRevision operatorStatus
          in case isLatestRevisionCurrent k c (world s) latestRevision of
               NilDeref \<Rightarrow> (NilDeref, s)
             | Return (isCurrent, reason) \<Rightarrow>
                if isCurrent then (Return (False, None), s)
                else
                 (let nextRevision = latestRevision + 1
                  in case createNewRevision k c nextRevision s of
                       (NilDeref, s1) \<Rightarrow> (NilDeref, s1)
                     | (Return (Some err), s1) \<Rightarrow>
                        (case UpdateStatus k (world s1) [UpdateConditionFn (contentCreationError err)] of
                           ((st, updated, updateError), w2) \<Rightarrow>
                             (let s2 = logged s1 w2
                                         (UpdateStatusCall [UpdateConditionFn (contentCreationError err)])
                              in case updateError of
                                   Some ue \<Rightarrow>
                                     (Return (True, Some ue),
                                      logged s2 w2
                                        (Warningf ''RevisionCreateFailed''
                                           (''Failed to create revision '' @ fmt_d (sint nextRevision)
                                              @ '': '' @ Error err)))
                                 | None \<Rightarrow> (Return (True, None), s2)))
                     | (Return None, s1) \<Rightarrow>
                        (case UpdateStatus k (world s1)
                                [UpdateConditionFn notFailing, SetLatestAvailableRevision nextRevision] of
                           ((st, updated, updateError), w2) \<Rightarrow>
                             (let s2 = logged s1 w2
                                         (UpdateStatusCall
                                            [UpdateConditionFn notFailing,
                                             SetLatestAvailableRevision nextRevision])
                              in case updateError of
                                   Some ue \<Rightarrow> (Return (True, Some ue), s2)
                                 | None \<Rightarrow>
                                    if updated
                                    then (Return (False, None),
                                          logged s2 w2
                                            (Eventf ''RevisionCreate''
                                               (''Revision ''
                                                  @ fmt_d (sint (LatestAvailableRevision operatorStatus))
                                                  @ '' created because '' @ reason)))
                                    else (Return (False, None), s2))))))"

subsection \<open>sync\<close>

text \<open>
  \<^verbatim>\<open>fmt.Errorf("synthetic requeue request (err: %v)", syncErr)\<close> is built only where
  \<^verbatim>\<open>syncErr\<close> is nil, and \<^verbatim>\<open>%v\<close> prints a nil error as \<^verbatim>\<open><nil>\<close>.
\<close>

definition syntheticRequeue :: error where
  "syntheticRequeue = OtherError ''synthetic requeue request (err: <nil>)''"

definition failingCondition :: "error option \<Rightarrow> OperatorCondition" where
  "failingCondition err =
     (case err of
        None \<Rightarrow>
          \<lparr>cond_Type = ''RevisionControllerFailing'', cond_Status = ConditionFalse,
           cond_Reason = '''', cond_Message = ''''\<rparr>
      | Some e \<Rightarrow>
          \<lparr>cond_Type = ''RevisionControllerFailing'', cond_Status = ConditionTrue,
           cond_Reason = ''Error'', cond_Message = Error e\<rparr>)"

text \<open>
  \<^verbatim>\<open>originalOperatorStatus.DeepCopy()\<close> of a nil pointer is nil (the generated
  \<^verbatim>\<open>DeepCopy\<close> tests its receiver), and so is the copy \<^verbatim>\<open>createRevisionIfNeeded\<close>
  takes; the first dereference is the read of \<^verbatim>\<open>operatorSpec.ManagementState\<close>.
\<close>

definition sync :: "'w Clients \<Rightarrow> RevisionController \<Rightarrow> 'w run \<Rightarrow> error option outcome \<times> 'w run" where
  "sync k c s =
     (case OperatorGet k (world s) of
        (operatorSpec, originalOperatorStatus, resourceVersion, err) \<Rightarrow>
          (case err of
             Some e \<Rightarrow> (Return (Some e), s)
           | None \<Rightarrow>
              (case operatorSpec of
                 None \<Rightarrow> (NilDeref, s)
               | Some spec \<Rightarrow>
                  (case ManagementState spec of
                     Unmanaged \<Rightarrow> (Return None, s)
                   | Removed \<Rightarrow> (Return None, s)
                   | _ \<Rightarrow>
                      (case createRevisionIfNeeded k c spec originalOperatorStatus resourceVersion s of
                         (NilDeref, s1) \<Rightarrow> (NilDeref, s1)
                       | (Return (requeue, syncErr), s1) \<Rightarrow>
                          if requeue \<and> syncErr = None
                          then (Return (Some syntheticRequeue), s1)
                          else
                           (case UpdateStatus k (world s1) [UpdateConditionFn (failingCondition syncErr)] of
                              ((st, updated, updateError), w2) \<Rightarrow>
                                (let s2 = logged s1 w2
                                            (UpdateStatusCall [UpdateConditionFn (failingCondition syncErr)])
                                 in case updateError of
                                      Some ue \<Rightarrow>
                                        if syncErr = None then (Return (Some ue), s2)
                                        else (Return syncErr, s2)
                                    | None \<Rightarrow> (Return syncErr, s2))))))))"

subsection \<open>A reference store\<close>

text \<open>
  Modelled from the spec: the Config Store and the Status Store of section 6, whose code
  (the Kubernetes client, \<^verbatim>\<open>resourceapply\<close>, \<^verbatim>\<open>common.UpdateStatus\<close>) is not in the
  file. The store holds the content of every config map and secret under its namespace
  and name, the operator's spec and status, and a script \<open>st_faults\<close> that decides
  the upcoming writes: each write takes the head of the script, fails with it when it is
  an error and changes nothing, and goes through when it is \<open>None\<close> or the script is
  empty. Theorems about the controller are stated for any \<open>Clients\<close>; the store gives
  them concrete inputs, and it carries the claims that speak of stored values.
\<close>

record Store =
  st_configmaps :: "(string \<times> string) \<rightharpoonup> (string \<rightharpoonup> string)"
  st_secrets :: "(string \<times> string) \<rightharpoonup> (string \<rightharpoonup> string)"
  st_spec :: OperatorSpec
  st_status :: StaticPodOperatorStatus
  st_faults :: "error option list"

definition zeroConfigMap :: ConfigMap where
  "zeroConfigMap =
     \<lparr>cm_APIVersion = '''', cm_Kind = '''', cm_Namespace = '''', cm_Name = '''', cm_UID = '''',
      cm_Data = Map.empty\<rparr>"

definition zeroSecret :: Secret where
  "zeroSecret =
     \<lparr>sec_APIVersion = '''', sec_Kind = '''', sec_Namespace = '''', sec_Name = '''', sec_UID = '''',
      sec_Data = Map.empty\<rparr>"

definition storedConfigMap :: "string \<Rightarrow> string \<Rightarrow> (string \<rightharpoonup> string) \<Rightarrow> ConfigMap" where
  "storedConfigMap ns name d =
     \<lparr>cm_APIVersion = ''v1'', cm_Kind = ''ConfigMap'', cm_Namespace = ns, cm_Name = name,
      cm_UID = ''uid-'' @ ns @ ''-'' @ name, cm_Data = d\<rparr>"

definition storedSecret :: "string \<Rightarrow> string \<Rightarrow> (string \<rightharpoonup> string) \<Rightarrow> Secret" where
  "storedSecret ns name d =
     \<lparr>sec_APIVersion = ''v1'', sec_Kind = ''Secret'', sec_Namespace = ns, sec_Name = name,
      sec_UID = ''uid-'' @ ns @ ''-'' @ name, sec_Data = d\<rparr>"

text \<open>
  Modelled from the spec: a fetch of an absent object fails with a not-found error. The
  spec gives no text for it; the store words it as apimachinery does,
  \<^verbatim>\<open>fmt.Sprintf("%s %q not found", resource, name)\<close>. \<open>goEscapes\<close> is what \<^verbatim>\<open>%q\<close> writes
  for the ASCII bytes it does not copy: the double quote and the backslash get a
  backslash, a control byte its escape. The store copies every other byte; Go does so
  for printable text, and escapes a byte above 0x7f that is not part of a printable
  UTF-8 character.
\<close>

definition goEscapes :: "(char \<times> string) list" where
  "goEscapes =
     [(CHR 0x22, [CHR 0x5C, CHR 0x22]), (CHR 0x5C, [CHR 0x5C, CHR 0x5C]),
      (CHR 0x00, [CHR 0x5C, CHR ''x'', CHR ''0'', CHR ''0'']), (CHR 0x01, [CHR 0x5C, CHR ''x'', CHR ''0'', CHR ''1'']),
      (CHR 0x02, [CHR 0x5C, CHR ''x'', CHR ''0'', CHR ''2'']), (CHR 0x03, [CHR 0x5C, CHR ''x'', CHR ''0'', CHR ''3'']),
      (CHR 0x04, [CHR 0x5C, CHR ''x'', CHR ''0'', CHR ''4'']), (CHR 0x05, [CHR 0x5C, CHR ''x'', CHR ''0'', CHR ''5'']),
      (CHR 0x06, [CHR 0x5C, CHR ''x'', CHR ''0'', CHR ''6'']), (CHR 0x07, [CHR 0x5C, CHR ''a'']),
      (CHR 0x08, [CHR 0x5C, CHR ''b'']), (CHR 0x09, [CHR 0x5C, CHR ''t'']),
      (CHR 0x0A, [CHR 0x5C, CHR ''n'']), (CHR 0x0B, [CHR 0x5C, CHR ''v'']),
      (CHR 0x0C, [CHR 0x5C, CHR ''f'']), (CHR 0x0D, [CHR 0x5C, CHR ''r'']),
      (CHR 0x0E, [CHR 0x5C, CHR ''x'', CHR ''0'', CHR ''e'']), (CHR 0x0F, [CHR 0x5C, CHR ''x'', CHR ''0'', CHR ''f'']),
      (CHR 0x10, [CHR 0x5C, CHR ''x'', CHR ''1'', CHR ''0'']), (CHR 0x11, [CHR 0x5C, CHR ''x'', CHR ''1'', CHR ''1'']),
      (CHR 0x12, [CHR 0x5C, CHR ''x'', CHR ''1'', CHR ''2'']), (CHR 0x13, [CHR 0x5C, CHR ''x'', CHR ''1'', CHR ''3'']),
      (CHR 0x14, [CHR 0x5C, CHR ''x'', CHR ''1'', CHR ''4'']), (CHR 0x15, [CHR 0x5C, CHR ''x'', CHR ''1'', CHR ''5'']),
      (CHR 0x16, [CHR 0x5C, CHR ''x'', CHR ''1'', CHR ''6'']), (CHR 0x17, [CHR 0x5C, CHR ''x'', CHR ''1'', CHR ''7'']),
      (CHR 0x18, [CHR 0x5C, CHR ''x'', CHR ''1'', CHR ''8'']), (CHR 0x19, [CHR 0x5C, CHR ''x'', CHR ''1'', CHR ''9'']),
      (CHR 0x1A, [CHR 0x5C, CHR ''x'', CHR ''1'', CHR ''a'']), (CHR 0x1B, [CHR 0x5C, CHR ''x'', CHR ''1'', CHR ''b'']),
      (CHR 0x1C, [CHR 0x5C, CHR ''x'', CHR ''1'', CHR ''c'']), (CHR 0x1D, [CHR 0x5C, CHR ''x'', CHR ''1'', CHR ''d'']),
      (CHR 0x1E, [CHR 0x5C, CHR ''x'', CHR ''1'', CHR ''e'']), (CHR 0x1F, [CHR 0x5C, CHR ''x'', CHR ''1'', CHR ''f'']),
      (CHR 0x7F, [CHR 0x5C, CHR ''x'', CHR ''7'', CHR ''f''])]"

definition quoted :: "string \<Rightarrow> string" where
  "quoted s =
     CHR 0x22 # concat (map (\<lambda>c. case map_of goEscapes c of None \<Rightarrow> [c] | Some e \<Rightarrow> e) s)
       @ [CHR 0x22]"

definition storeNotFoundMessage :: "string \<Rightarrow> string \<Rightarrow> string" where
  "storeNotFoundMessage resource name = resource @ '' '' @ quoted name @ '' not found''"

text \<open>
  Modelled from the spec: \<^verbatim>\<open>GetConfigMap(namespace, name)\<close> and
  \<^verbatim>\<open>GetSecret(namespace, name)\<close> "fail with NotFound when absent". With the error comes a
  zero-valued object.
\<close>

definition storeGetConfigMap :: "Store \<Rightarrow> string \<Rightarrow> string \<Rightarrow> ConfigMap option \<times> error option" where
  "storeGetConfigMap w ns name =
     (case st_configmaps w (ns, name) of
        None \<Rightarrow> (Some zeroConfigMap,
                 Some (NotFound ''configmaps'' name (storeNotFoundMessage ''configmaps'' name)))
      | Some d \<Rightarrow> (Some (storedConfigMap ns name d), None))"

definition storeGetSecret :: "Store \<Rightarrow> string \<Rightarrow> string \<Rightarrow> Secret option \<times> error option" where
  "storeGetSecret w ns name =
     (case st_secrets w (ns, name) of
        None \<Rightarrow> (Some zeroSecret,
                 Some (NotFound ''secrets'' name (storeNotFoundMessage ''secrets'' name)))
      | Some d \<Rightarrow> (Some (storedSecret ns name d), None))"

definition nextFault :: "Store \<Rightarrow> error option \<times> Store" where
  "nextFault w =
     (case st_faults w of
        [] \<Rightarrow> (None, w)
      | f # fs \<Rightarrow> (f, w\<lparr>st_faults := fs\<rparr>))"

text \<open>
  Modelled from the spec: \<^verbatim>\<open>ApplyConfigMap(obj)\<close> "creates-or-updates idempotently".
\<close>

definition storeApplyConfigMap ::
  "Store \<Rightarrow> ConfigMap \<Rightarrow> (ConfigMap option \<times> bool \<times> error option) \<times> Store" where
  "storeApplyConfigMap w obj =
     (case nextFault w of
        (Some e, w') \<Rightarrow> ((None, False, Some e), w')
      | (None, w') \<Rightarrow>
          ((Some (storedConfigMap (cm_Namespace obj) (cm_Name obj) (cm_Data obj)),
            st_configmaps w' (cm_Namespace obj, cm_Name obj) \<noteq> Some (cm_Data obj),
            None),
           w'\<lparr>st_configmaps := (st_configmaps w')((cm_Namespace obj, cm_Name obj) \<mapsto> cm_Data obj)\<rparr>))"

text \<open>
  Modelled from the spec: \<^verbatim>\<open>SyncConfigMap/SyncSecret(srcNamespace, srcName, dstNamespace,
  dstName, ownerRefs)\<close> "copies content and returns the resulting object or a nil object to
  signal source absent".
\<close>

definition storeSyncConfigMap ::
  "Store \<Rightarrow> string \<Rightarrow> string \<Rightarrow> string \<Rightarrow> string \<Rightarrow> OwnerReference list
     \<Rightarrow> (ConfigMap option \<times> bool \<times> error option) \<times> Store" where
  "storeSyncConfigMap w srcNamespace srcName dstNamespace dstName ownerRefs =
     (case nextFault w of
        (Some e, w') \<Rightarrow> ((None, False, Some e), w')
      | (None, w') \<Rightarrow>
          (case st_configmaps w' (srcNamespace, srcName) of
             None \<Rightarrow> ((None, False, None), w')
           | Some d \<Rightarrow>
               ((Some (storedConfigMap dstNamespace dstName d),
                 st_configmaps w' (dstNamespace, dstName) \<noteq> Some d,
                 None),
                w'\<lparr>st_configmaps := (st_configmaps w')((dstNamespace, dstName) \<mapsto> d)\<rparr>)))"

definition storeSyncSecret ::
  "Store \<Rightarrow> string \<Rightarrow> string \<Rightarrow> string \<Rightarrow> string \<Rightarrow> OwnerReference list
     \<Rightarrow> (Secret option \<times> bool \<times> error option) \<times> Store" where
  "storeSyncSecret w srcNamespace srcName dstNamespace dstName ownerRefs =
     (case nextFault w of
        (Some e, w') \<Rightarrow> ((None, False, Some e), w')
      | (None, w') \<Rightarrow>
          (case st_secrets w' (srcNamespace, srcName) of
             None \<Rightarrow> ((None, False, None), w')
           | Some d \<Rightarrow>
               ((Some (storedSecret dstNamespace dstName d),
                 st_secrets w' (dstNamespace, dstName) \<noteq> Some d,
                 None),
                w'\<lparr>st_secrets := (st_secrets w')((dstNamespace, dstName) \<mapsto> d)\<rparr>)))"

text \<open>
  Modelled from the spec: a condition is "keyed by type; at most one live condition per
  type". Setting a condition replaces the one of its type, or adds it when there is none.
\<close>

fun SetOperatorCondition :: "OperatorCondition list \<Rightarrow> OperatorCondition \<Rightarrow> OperatorCondition list" where
  "SetOperatorCondition [] new = [new]"
| "SetOperatorCondition (x # xs) new =
     (if cond_Type x = cond_Type new then new # xs else x # SetOperatorCondition xs new)"


fun applyUpdate :: "UpdateStatusFunc \<Rightarrow> StaticPodOperatorStatus \<Rightarrow> StaticPodOperatorStatus" where
  "applyUpdate (UpdateConditionFn cond) st = st\<lparr>Conditions := SetOperatorCondition (Conditions st) cond\<rparr>"
| "applyUpdate (SetLatestAvailableRevision revision) st = st\<lparr>LatestAvailableRevision := revision\<rparr>"

text \<open>
  Modelled from the spec: \<^verbatim>\<open>Get() -> (spec, status, versionToken, error)\<close> and
  \<^verbatim>\<open>UpdateStatus(mutator functions) -> (status, changed bool, error)\<close>. The mutators are
  applied in order to the stored status; the result is written when it differs. A
  rejected compare-and-swap is an error of the fault script.
\<close>

definition storeOperatorGet ::
  "Store \<Rightarrow> OperatorSpec option \<times> StaticPodOperatorStatus option \<times> string \<times> error option" where
  "storeOperatorGet w = (Some (st_spec w), Some (st_status w), '''', None)"

definition storeUpdateStatus ::
  "Store \<Rightarrow> UpdateStatusFunc list \<Rightarrow> (StaticPodOperatorStatus option \<times> bool \<times> error option) \<times> Store" where
  "storeUpdateStatus w updateFuncs =
     (case nextFault w of
        (Some e, w') \<Rightarrow> ((None, False, Some e), w')
      | (None, w') \<Rightarrow>
          (let newStatus = fold applyUpdate updateFuncs (st_status w')
           in if newStatus = st_status w' then ((Some newStatus, False, None), w')
              else ((Some newStatus, True, None), w'\<lparr>st_status := newStatus\<rparr>)))"

definition storeClients :: "Store Clients" where
  "storeClients =
     \<lparr>GetConfigMap = storeGetConfigMap, GetSecret = storeGetSecret,
      ApplyConfigMap = storeApplyConfigMap, SyncConfigMap = storeSyncConfigMap,
      SyncSecret = storeSyncSecret, OperatorGet = storeOperatorGet,
      UpdateStatus = storeUpdateStatus, NotFoundMessage = storeNotFoundMessage\<rparr>"

subsection \<open>Example inputs\<close>

text \<open>
  A controller watching one config map and one secret, and a store at revision 1 whose
  live config map has changed since the snapshot \<^verbatim>\<open>config-1\<close> was taken. The argument
  is the fault script.
\<close>

definition exampleController :: RevisionController where
  "exampleController = \<lparr>targetNamespace = ''target'', configMaps = [''config''], secrets = [''key'']\<rparr>"

definition exampleStore :: "error option list \<Rightarrow> Store" where
  "exampleStore faults =
     \<lparr>st_configmaps = [(''target'', ''config'') \<mapsto> [''a'' \<mapsto> ''2''],
                       (''target'', ''config-1'') \<mapsto> [''a'' \<mapsto> ''1'']],
      st_secrets = [(''target'', ''key'') \<mapsto> [''k'' \<mapsto> ''s''],
                    (''target'', ''key-1'') \<mapsto> [''k'' \<mapsto> ''s'']],
      st_spec = \<lparr>ManagementState = Managed\<rparr>,
      st_status = \<lparr>LatestAvailableRevision = 1, Conditions = []\<rparr>,
      st_faults = faults\<rparr>"

definition exampleRun :: "error option list \<Rightarrow> Store run" where
  "exampleRun faults = \<lparr>world = exampleStore faults, trace = []\<rparr>"

text \<open>The same controller, watching one more secret, \<^verbatim>\<open>token\<close>, which the store does not hold.\<close>

definition exampleControllerD :: RevisionController where
  "exampleControllerD =
     \<lparr>targetNamespace = ''target'', configMaps = [''config''], secrets = [''key'', ''token'']\<rparr>"

text \<open>The example store with other config maps and secrets in it.\<close>

definition storeHolding ::
  "((string \<times> string) \<rightharpoonup> (string \<rightharpoonup> string)) \<Rightarrow> ((string \<times> string) \<rightharpoonup> (string \<rightharpoonup> string)) \<Rightarrow> Store" where
  "storeHolding cms secs = (exampleStore [])\<lparr>st_configmaps := cms, st_secrets := secs\<rparr>"

subsection \<open>The decision as the specification words it\<close>

text \<open>
  The specification's reading of the decision engine: every configured config map, then
  every configured secret, in declared order, gives one pair (live source, snapshot); a
  pair has a problem when either side is missing or the contents differ, and the
  decision reports the first problem, or "current" with an empty reason when there is
  none. \<open>storeAnswers\<close> is the store contract this reading presupposes: a fetch either
  yields the object of the name asked for and no error, or fails with a not-found error.
\<close>

definition lookupConfigMap :: "'w Clients \<Rightarrow> 'w \<Rightarrow> string \<Rightarrow> string \<Rightarrow> string + (string \<rightharpoonup> string)" where
  "lookupConfigMap k w ns name =
     (case GetConfigMap k w ns name of
        (obj, Some e) \<Rightarrow> Inl (Error e)
      | (Some x, None) \<Rightarrow> Inr (cm_Data x)
      | (None, None) \<Rightarrow> Inl [])"

definition lookupSecret :: "'w Clients \<Rightarrow> 'w \<Rightarrow> string \<Rightarrow> string \<Rightarrow> string + (string \<rightharpoonup> string)" where
  "lookupSecret k w ns name =
     (case GetSecret k w ns name of
        (obj, Some e) \<Rightarrow> Inl (Error e)
      | (Some x, None) \<Rightarrow> Inr (sec_Data x)
      | (None, None) \<Rightarrow> Inl [])"

definition pairProblem ::
  "string \<Rightarrow> string \<Rightarrow> string + (string \<rightharpoonup> string) \<Rightarrow> string + (string \<rightharpoonup> string) \<Rightarrow> string option" where
  "pairProblem kind name live snapshot =
     (case live of
        Inl text \<Rightarrow> Some text
      | Inr d \<Rightarrow>
         (case snapshot of
            Inl text \<Rightarrow> Some text
          | Inr d' \<Rightarrow> if d' = d then None else Some (kind @ ''/'' @ name @ '' has changed'')))"

definition problems :: "'w Clients \<Rightarrow> RevisionController \<Rightarrow> 'w \<Rightarrow> int32 \<Rightarrow> string option list" where
  "problems k c w r =
     map (\<lambda>name. pairProblem ''configmap'' name
                   (lookupConfigMap k w (targetNamespace c) name)
                   (lookupConfigMap k w (targetNamespace c) (nameFor name r)))
         (configMaps c)
     @ map (\<lambda>name. pairProblem ''secret'' name
                     (lookupSecret k w (targetNamespace c) name)
                     (lookupSecret k w (targetNamespace c) (nameFor name r)))
           (secrets c)"

fun firstProblem :: "string option list \<Rightarrow> string option" where
  "firstProblem [] = None"
| "firstProblem (None # ps) = firstProblem ps"
| "firstProblem (Some reason # ps) = Some reason"

definition isCurrentSpec :: "'w Clients \<Rightarrow> RevisionController \<Rightarrow> 'w \<Rightarrow> int32 \<Rightarrow> bool \<times> string" where
  "isCurrentSpec k c w r =
     (case firstProblem (problems k c w r) of
        None \<Rightarrow> (True, '''')
      | Some reason \<Rightarrow> (False, reason))"

definition answersConfigMap :: "'w Clients \<Rightarrow> 'w \<Rightarrow> string \<Rightarrow> string \<Rightarrow> bool" where
  "answersConfigMap k w ns name =
     (case GetConfigMap k w ns name of
        (obj, Some (NotFound resource missing message)) \<Rightarrow> True
      | (obj, Some (OtherError message)) \<Rightarrow> False
      | (Some x, None) \<Rightarrow> cm_Name x = name
      | (None, None) \<Rightarrow> False)"

definition answersSecret :: "'w Clients \<Rightarrow> 'w \<Rightarrow> string \<Rightarrow> string \<Rightarrow> bool" where
  "answersSecret k w ns name =
     (case GetSecret k w ns name of
        (obj, Some (NotFound resource missing message)) \<Rightarrow> True
      | (obj, Some (OtherError message)) \<Rightarrow> False
      | (Some x, None) \<Rightarrow> sec_Name x = name
      | (None, None) \<Rightarrow> False)"

definition storeAnswers :: "'w Clients \<Rightarrow> RevisionController \<Rightarrow> 'w \<Rightarrow> int32 \<Rightarrow> bool" where
  "storeAnswers k c w r =
     (list_all (\<lambda>name. answersConfigMap k w (targetNamespace c) name
                      \<and> answersConfigMap k w (targetNamespace c) (nameFor name r)) (configMaps c)
      \<and> list_all (\<lambda>name. answersSecret k w (targetNamespace c) name
                        \<and> answersSecret k w (targetNamespace c) (nameFor name r)) (secrets c))"

subsection \<open>A creation in which every step succeeds\<close>






subsection \<open>What an error text names\<close>

text \<open>\<open>mentions text s\<close>: the string \<open>s\<close> occurs in \<open>text\<close>.\<close>

fun mentions :: "string \<Rightarrow> string \<Rightarrow> bool" where
  "mentions [] s = (s = [])"
| "mentions (x # xs) s = (take (length s) (x # xs) = s \<or> mentions xs s)"

text \<open>
  \<open>plainName s\<close>: \<open>s\<close> is made of the characters of a Kubernetes object name, lower-case
  letters, digits, \<^verbatim>\<open>-\<close> and \<^verbatim>\<open>.\<close>
\<close>

definition plainName :: "string \<Rightarrow> bool" where
  "plainName s = list_all (\<lambda>c. c \<in> set ''abcdefghijklmnopqrstuvwxyz0123456789-.'') s"

subsection \<open>The dispatch loop's reaction\<close>

text \<open>
  What \<^verbatim>\<open>processNextWorkItem\<close> does with the error \<^verbatim>\<open>sync\<close> returned: it forgets the key on
  nil, and re-adds it rate-limited otherwise.
\<close>

datatype queueAction = Forget | AddRateLimited

fun afterSync :: "error option \<Rightarrow> queueAction" where
  "afterSync None = Forget"
| "afterSync (Some err) = AddRateLimited"

subsection \<open>Reading the trace\<close>

text \<open>\<open>isCopyWith refs cl\<close>: the call \<open>cl\<close> is a snapshot copy that carries the owner references \<open>refs\<close>.\<close>

fun isCopyWith :: "OwnerReference list \<Rightarrow> call \<Rightarrow> bool" where
  "isCopyWith refs (SyncConfigMapCall srcNamespace srcName dstNamespace dstName ownerRefs) = (ownerRefs = refs)"
| "isCopyWith refs (SyncSecretCall srcNamespace srcName dstNamespace dstName ownerRefs) = (ownerRefs = refs)"
| "isCopyWith refs (ApplyConfigMapCall obj) = False"
| "isCopyWith refs (UpdateStatusCall updateFuncs) = False"
| "isCopyWith refs (Warningf reason message) = False"
| "isCopyWith refs (Eventf reason message) = False"

subsection \<open>Clients with altered reads\<close>

text \<open>
  \<open>ignoringOtherErrors k\<close> answers every fetch as \<open>k\<close> does, but with the nil error in
  place of any error that is not NotFound. \<open>readsFailWith e k\<close> fails every fetch with
  the error \<open>e\<close> and returns a zero-valued object with it, as the typed Kubernetes
  client does.
\<close>

definition ignoringOtherErrors :: "'w Clients \<Rightarrow> 'w Clients" where
  "ignoringOtherErrors k =
     k\<lparr>GetConfigMap :=
          (\<lambda>w ns name. case GetConfigMap k w ns name of
                          (obj, err) \<Rightarrow> (obj, if IsNotFound err then err else None)),
       GetSecret :=
          (\<lambda>w ns name. case GetSecret k w ns name of
                          (obj, err) \<Rightarrow> (obj, if IsNotFound err then err else None))\<rparr>"

definition readsFailWith :: "error \<Rightarrow> 'w Clients \<Rightarrow> 'w Clients" where
  "readsFailWith e k =
     k\<lparr>GetConfigMap := (\<lambda>w ns name. (Some zeroConfigMap, Some e)),
       GetSecret := (\<lambda>w ns name. (Some zeroSecret, Some e))\<rparr>"

section \<open>Properties\<close>

subsection \<open>Evaluation on concrete inputs\<close>

lemma map_upd_neq: "v \<noteq> v' \<Longrightarrow> m(k \<mapsto> v) \<noteq> n(k \<mapsto> v')"
  by (auto dest: map_upd_eqD1)

lemmas fmt_simps = nameFor_def fmt_d_def decimal.simps digit_def

lemmas store_simps =
  storeClients_def storeGetConfigMap_def storeGetSecret_def storeApplyConfigMap_def
  storeSyncConfigMap_def storeSyncSecret_def storeOperatorGet_def storeUpdateStatus_def
  nextFault_def storedConfigMap_def storedSecret_def zeroConfigMap_def zeroSecret_def
  storeNotFoundMessage_def quoted_def goEscapes_def

lemmas example_simps = exampleController_def exampleStore_def exampleRun_def

lemmas run_simps =
  createNewRevision_def createRevisionIfNeeded_def sync_def isLatestRevisionCurrent_def
  statusConfigMapFor_def ownerRefsOf_def logged_def contentCreationError_def notFailing_def
  failingCondition_def syntheticRequeue_def Let_def

lemma example_decision:
  "isLatestRevisionCurrent storeClients exampleController (exampleStore faults) 1
     = Return (False, ''configmap/config has changed'')"
  by (simp add: isLatestRevisionCurrent_def store_simps example_simps fmt_simps map_upd_neq)

lemma result_cases:
  obtains obj changed err w' where "x = ((obj, changed, err), w')"
  by (cases x) auto

subsection \<open>Decimal formatting is injective\<close>

lemma decimal_nonempty: "decimal n \<noteq> []"
  by (subst decimal.simps) simp

lemma digit_inj: "a < 10 \<Longrightarrow> b < 10 \<Longrightarrow> digit a = digit b \<Longrightarrow> a = b"
proof -
  assume a: "a < 10" and b: "b < 10" and e: "digit a = digit b"
  have d: "distinct ''0123456789''" by simp
  have "a < length ''0123456789''" "b < length ''0123456789''" using a b by simp_all
  with d e show "a = b" unfolding digit_def by (simp only: nth_eq_iff_index_eq)
qed

lemma digit_in: "a < 10 \<Longrightarrow> digit a \<in> set ''0123456789''"
  unfolding digit_def by (rule nth_mem) simp

lemma decimal_digits: "set (decimal n) \<subseteq> set ''0123456789''"
proof (induction n rule: decimal.induct)
  case (1 n)
  show ?case
  proof (cases "n < 10")
    case True
    then show ?thesis using digit_in [of n] by (subst decimal.simps) simp
  next
    case False
    have "n mod 10 < 10" by simp
    then have "digit (n mod 10) \<in> set ''0123456789''" by (rule digit_in)
    with False 1 show ?thesis by (subst decimal.simps) simp
  qed
qed

lemma decimal_inj: "decimal n = decimal m \<Longrightarrow> n = m"
proof (induction n arbitrary: m rule: decimal.induct)
  case (1 n)
  show ?case
  proof (cases "n < 10")
    case True
    note n = True
    show ?thesis
    proof (cases "m < 10")
      case True
      with n 1(2) show ?thesis
        by (simp add: decimal.simps [of n] decimal.simps [of m] digit_inj)
    next
      case False
      with n 1(2) decimal_nonempty [of "m div 10"] show ?thesis
        by (simp add: decimal.simps [of n] decimal.simps [of m])
    qed
  next
    case False
    note n = False
    show ?thesis
    proof (cases "m < 10")
      case True
      with n 1(2) decimal_nonempty [of "n div 10"] show ?thesis
        by (simp add: decimal.simps [of n] decimal.simps [of m])
    next
      case False
      with n 1(2) have e: "decimal (n div 10) = decimal (m div 10)"
        and d: "digit (n mod 10) = digit (m mod 10)"
        by (simp_all add: decimal.simps [of n] decimal.simps [of m])
      from 1(1) [OF n e] have q: "n div 10 = m div 10" .
      have "n mod 10 < 10" "m mod 10 < 10" by simp_all
      with d have r: "n mod 10 = m mod 10" by (rule digit_inj [rotated 2])
      from q r show ?thesis by (metis div_mult_mod_eq)
    qed
  qed
qed

lemma fmt_d_inj: "fmt_d i = fmt_d j \<Longrightarrow> i = j"
proof -
  assume e: "fmt_d i = fmt_d j"
  have nm: "\<And>n. CHR ''-'' \<notin> set (decimal n)"
    using decimal_digits by fastforce
  have hd: "\<And>n. hd (decimal n) \<noteq> CHR ''-''"
    using nm decimal_nonempty by (metis hd_in_set)
  show "i = j"
  proof (cases "i < 0"; cases "j < 0")
    assume "i < 0" "j < 0"
    with e have "decimal (nat (- i)) = decimal (nat (- j))" by (simp add: fmt_d_def)
    then have "nat (- i) = nat (- j)" by (rule decimal_inj)
    with \<open>i < 0\<close> \<open>j < 0\<close> show ?thesis by simp
  next
    assume "i < 0" "\<not> j < 0"
    with e have "CHR ''-'' # decimal (nat (- i)) = decimal (nat j)" by (simp add: fmt_d_def)
    then have "hd (decimal (nat j)) = CHR ''-''" by (metis list.sel(1))
    with hd show ?thesis by blast
  next
    assume "\<not> i < 0" "j < 0"
    with e have "decimal (nat i) = CHR ''-'' # decimal (nat (- j))" by (simp add: fmt_d_def)
    then have "hd (decimal (nat i)) = CHR ''-''" by (metis list.sel(1))
    with hd show ?thesis by blast
  next
    assume "\<not> i < 0" "\<not> j < 0"
    with e have "decimal (nat i) = decimal (nat j)" by (simp add: fmt_d_def)
    then have "nat i = nat j" by (rule decimal_inj)
    with \<open>\<not> i < 0\<close> \<open>\<not> j < 0\<close> show ?thesis by simp
  qed
qed

lemma fmt_d_next_differs: "fmt_d (sint (r + 1)) \<noteq> fmt_d (sint (r :: int32))"
proof
  assume "fmt_d (sint (r + 1)) = fmt_d (sint r)"
  then have "sint (r + 1) = sint r" by (rule fmt_d_inj)
  then have "r + 1 = r" by (rule signed_word_eqI)
  then show False by simp
qed

subsection \<open>The decision engine\<close>

lemma firstProblem_append:
  "firstProblem (ps @ qs) = (case firstProblem ps of None \<Rightarrow> firstProblem qs | Some reason \<Rightarrow> Some reason)"
  by (induction ps rule: firstProblem.induct) simp_all

lemma currentConfigMaps_spec:
  "list_all (\<lambda>name. answersConfigMap k w ns name \<and> answersConfigMap k w ns (nameFor name r)) names \<Longrightarrow>
   currentConfigMaps k w ns r names =
     Return (map_option (Pair False)
       (firstProblem (map (\<lambda>name. pairProblem ''configmap'' name (lookupConfigMap k w ns name)
                                  (lookupConfigMap k w ns (nameFor name r))) names)))"
proof (induction names)
  case Nil
  then show ?case by simp
next
  case (Cons name names)
  then show ?case
    by (cases "GetConfigMap k w ns name"; cases "GetConfigMap k w ns (nameFor name r)")
       (auto simp: answersConfigMap_def lookupConfigMap_def pairProblem_def
             split: option.splits error.splits)
qed

lemma currentSecrets_spec:
  "list_all (\<lambda>name. answersSecret k w ns name \<and> answersSecret k w ns (nameFor name r)) names \<Longrightarrow>
   currentSecrets k w ns r names =
     Return (map_option (Pair False)
       (firstProblem (map (\<lambda>name. pairProblem ''secret'' name (lookupSecret k w ns name)
                                  (lookupSecret k w ns (nameFor name r))) names)))"
proof (induction names)
  case Nil
  then show ?case by simp
next
  case (Cons name names)
  then show ?case
    by (cases "GetSecret k w ns name"; cases "GetSecret k w ns (nameFor name r)")
       (auto simp: answersSecret_def lookupSecret_def pairProblem_def
             split: option.splits error.splits)
qed

lemma storeClients_answers: "storeAnswers storeClients c w r"
proof -
  have a: "answersConfigMap storeClients w ns name" for ns name
    by (simp add: answersConfigMap_def storeClients_def storeGetConfigMap_def storedConfigMap_def
          split: option.splits)
  have b: "answersSecret storeClients w ns name" for ns name
    by (simp add: answersSecret_def storeClients_def storeGetSecret_def storedSecret_def
          split: option.splits)
  show ?thesis
    by (simp add: storeAnswers_def a b list_all_iff)
qed

lemmas spec_simps =
  isCurrentSpec_def problems_def pairProblem_def lookupConfigMap_def lookupSecret_def storeHolding_def

text \<open>
  Claim C1, as amended. For every revision \<open>r\<close>, on a store each of whose fetches either
  returns the object of the name asked for and no error, or fails with a not-found
  error, \<^verbatim>\<open>isLatestRevisionCurrent(r)\<close> goes through the configured config maps in declared
  order and then through the configured secrets in declared order. At the first name
  whose live source or whose snapshot \<^verbatim>\<open><name>-r\<close> is missing it returns not-current at
  once (with the text of the not-found error); at the first name whose two \<^verbatim>\<open>Data\<close>
  fields differ it returns not-current with the reason \<^verbatim>\<open><kind>/<name> has changed\<close>; it
  returns current with the empty reason only when every pair matches. Only the first
  problem met is reported.
\<close>

theorem isLatestRevisionCurrent_first_mismatch:
  assumes "storeAnswers k c w r"
  shows "isLatestRevisionCurrent k c w r = Return (isCurrentSpec k c w r)"
  using assms
  by (simp add: isLatestRevisionCurrent_def isCurrentSpec_def problems_def storeAnswers_def
        currentConfigMaps_spec currentSecrets_spec firstProblem_append split: option.splits)

text \<open>
  The theorem at six stores: the config map changed; the config map changed and the
  snapshot of the secret missing too (only the first is reported); only the secret
  changed; the snapshot of the secret missing; the live config map missing; every pair
  equal.
\<close>

theorem isLatestRevisionCurrent_first_mismatch_witness:
  "storeAnswers storeClients exampleController (exampleStore []) 1
   \<and> isLatestRevisionCurrent storeClients exampleController (exampleStore []) 1
       = Return (False, ''configmap/config has changed'')
   \<and> isLatestRevisionCurrent storeClients exampleController
         (storeHolding
            [(''target'', ''config'') \<mapsto> [''a'' \<mapsto> ''2''], (''target'', ''config-1'') \<mapsto> [''a'' \<mapsto> ''1'']]
            [(''target'', ''key'') \<mapsto> [''k'' \<mapsto> ''s'']]) 1
       = Return (False, ''configmap/config has changed'')
   \<and> isLatestRevisionCurrent storeClients exampleController
         (storeHolding
            [(''target'', ''config'') \<mapsto> [''a'' \<mapsto> ''1''], (''target'', ''config-1'') \<mapsto> [''a'' \<mapsto> ''1'']]
            [(''target'', ''key'') \<mapsto> [''k'' \<mapsto> ''t''], (''target'', ''key-1'') \<mapsto> [''k'' \<mapsto> ''s'']]) 1
       = Return (False, ''secret/key has changed'')
   \<and> isLatestRevisionCurrent storeClients exampleController
         (storeHolding
            [(''target'', ''config'') \<mapsto> [''a'' \<mapsto> ''1''], (''target'', ''config-1'') \<mapsto> [''a'' \<mapsto> ''1'']]
            [(''target'', ''key'') \<mapsto> [''k'' \<mapsto> ''s'']]) 1
       = Return (False, ''secrets '' @ [CHR 0x22] @ ''key-1'' @ [CHR 0x22] @ '' not found'')
   \<and> isLatestRevisionCurrent storeClients exampleController
         (storeHolding
            [(''target'', ''config-1'') \<mapsto> [''a'' \<mapsto> ''1'']]
            [(''target'', ''key'') \<mapsto> [''k'' \<mapsto> ''s''], (''target'', ''key-1'') \<mapsto> [''k'' \<mapsto> ''s'']]) 1
       = Return (False, ''configmaps '' @ [CHR 0x22] @ ''config'' @ [CHR 0x22] @ '' not found'')
   \<and> isLatestRevisionCurrent storeClients exampleController
         (storeHolding
            [(''target'', ''config'') \<mapsto> [''a'' \<mapsto> ''1''], (''target'', ''config-1'') \<mapsto> [''a'' \<mapsto> ''1'']]
            [(''target'', ''key'') \<mapsto> [''k'' \<mapsto> ''s''], (''target'', ''key-1'') \<mapsto> [''k'' \<mapsto> ''s'']]) 1
       = Return (True, [])"
proof -
  note T = isLatestRevisionCurrent_first_mismatch [OF storeClients_answers]
  have 1: "isCurrentSpec storeClients exampleController (exampleStore []) 1
          = (False, ''configmap/config has changed'')"
    by (simp add: spec_simps store_simps example_simps fmt_simps map_upd_neq)
  have 2: "isCurrentSpec storeClients exampleController
         (storeHolding
            [(''target'', ''config'') \<mapsto> [''a'' \<mapsto> ''2''], (''target'', ''config-1'') \<mapsto> [''a'' \<mapsto> ''1'']]
            [(''target'', ''key'') \<mapsto> [''k'' \<mapsto> ''s'']]) 1
          = (False, ''configmap/config has changed'')"
    by (simp add: spec_simps store_simps example_simps fmt_simps map_upd_neq)
  have 3: "isCurrentSpec storeClients exampleController
         (storeHolding
            [(''target'', ''config'') \<mapsto> [''a'' \<mapsto> ''1''], (''target'', ''config-1'') \<mapsto> [''a'' \<mapsto> ''1'']]
            [(''target'', ''key'') \<mapsto> [''k'' \<mapsto> ''t''], (''target'', ''key-1'') \<mapsto> [''k'' \<mapsto> ''s'']]) 1
          = (False, ''secret/key has changed'')"
    by (simp add: spec_simps store_simps example_simps fmt_simps map_upd_neq)
  have 4: "isCurrentSpec storeClients exampleController
         (storeHolding
            [(''target'', ''config'') \<mapsto> [''a'' \<mapsto> ''1''], (''target'', ''config-1'') \<mapsto> [''a'' \<mapsto> ''1'']]
            [(''target'', ''key'') \<mapsto> [''k'' \<mapsto> ''s'']]) 1
          = (False, ''secrets '' @ [CHR 0x22] @ ''key-1'' @ [CHR 0x22] @ '' not found'')"
    by (simp add: spec_simps store_simps example_simps fmt_simps map_upd_neq)
  have 5: "isCurrentSpec storeClients exampleController
         (storeHolding
            [(''target'', ''config-1'') \<mapsto> [''a'' \<mapsto> ''1'']]
            [(''target'', ''key'') \<mapsto> [''k'' \<mapsto> ''s''], (''target'', ''key-1'') \<mapsto> [''k'' \<mapsto> ''s'']]) 1
          = (False, ''configmaps '' @ [CHR 0x22] @ ''config'' @ [CHR 0x22] @ '' not found'')"
    by (simp add: spec_simps store_simps example_simps fmt_simps map_upd_neq)
  have 6: "isCurrentSpec storeClients exampleController
         (storeHolding
            [(''target'', ''config'') \<mapsto> [''a'' \<mapsto> ''1''], (''target'', ''config-1'') \<mapsto> [''a'' \<mapsto> ''1'']]
            [(''target'', ''key'') \<mapsto> [''k'' \<mapsto> ''s''], (''target'', ''key-1'') \<mapsto> [''k'' \<mapsto> ''s'']]) 1
          = (True, [])"
    by (simp add: spec_simps store_simps example_simps fmt_simps map_upd_neq)
  show ?thesis
    unfolding T 1 2 3 4 5 6 by (simp add: storeClients_answers)
qed

text \<open>
  The claim as first stated puts no condition on the store. It fails where a fetch fails
  with an error other than not-found. The store holds \<^verbatim>\<open>config\<close> and \<^verbatim>\<open>config-1\<close> with
  different data. When the fetch of \<^verbatim>\<open>config\<close> times out and returns a zero-valued object,
  the reason is \<^verbatim>\<open>configmap/ has changed\<close>, without the name; when every fetch times out,
  the answer is current.
\<close>

theorem isLatestRevisionCurrent_first_mismatch_counterexample:
  "st_configmaps (exampleStore []) (''target'', ''config'') = Some [''a'' \<mapsto> ''2'']
   \<and> st_configmaps (exampleStore []) (''target'', ''config-1'') = Some [''a'' \<mapsto> ''1'']
   \<and> isLatestRevisionCurrent
         (storeClients\<lparr>GetConfigMap :=
            (\<lambda>w ns name. if name = ''config''
                          then (Some zeroConfigMap, Some (OtherError ''request timed out''))
                          else storeGetConfigMap w ns name)\<rparr>)
         exampleController (exampleStore []) 1
       = Return (False, ''configmap/ has changed'')
   \<and> isLatestRevisionCurrent (readsFailWith (OtherError ''request timed out'') storeClients)
         exampleController (exampleStore []) 1
       = Return (True, [])"
  by (simp add: isLatestRevisionCurrent_def readsFailWith_def store_simps example_simps fmt_simps
        map_upd_neq)

subsection \<open>The reference store under the controller\<close>

lemma nextFault_status: "st_status (snd (nextFault w)) = st_status w"
  by (simp add: nextFault_def split: list.splits)

lemma storeApplyConfigMap_status:
  "st_status (snd (storeApplyConfigMap w obj)) = st_status w"
  using nextFault_status [of w]
  by (cases "nextFault w") (simp add: storeApplyConfigMap_def split: option.splits)

lemma storeSyncConfigMap_status:
  "st_status (snd (storeSyncConfigMap w a b c d refs)) = st_status w"
  using nextFault_status [of w]
  by (cases "nextFault w") (simp add: storeSyncConfigMap_def split: option.splits)

lemma storeSyncSecret_status:
  "st_status (snd (storeSyncSecret w a b c d refs)) = st_status w"
  using nextFault_status [of w]
  by (cases "nextFault w") (simp add: storeSyncSecret_def split: option.splits)

lemma storeApplyConfigMap_object:
  "fst (storeApplyConfigMap w obj) = (None, changed, None) \<Longrightarrow> False"
  by (cases "nextFault w") (simp add: storeApplyConfigMap_def split: option.splits)

lemma store_fields [simp]:
  "ApplyConfigMap storeClients = storeApplyConfigMap"
  "SyncConfigMap storeClients = storeSyncConfigMap"
  "SyncSecret storeClients = storeSyncSecret"
  "UpdateStatus storeClients = storeUpdateStatus"
  "OperatorGet storeClients = storeOperatorGet"
  "GetConfigMap storeClients = storeGetConfigMap"
  "GetSecret storeClients = storeGetSecret"
  "NotFoundMessage storeClients = storeNotFoundMessage"
  by (simp_all add: storeClients_def)

lemma copyConfigMaps_store_status:
  "st_status (world (snd (copyConfigMaps storeClients c r refs names s))) = st_status (world s)"
proof (induction names arbitrary: s)
  case Nil
  show ?case by simp
next
  case (Cons name names)
  obtain obj changed err w' where
    r: "storeSyncConfigMap (world s) (targetNamespace c) name (targetNamespace c) (nameFor name r) refs
          = ((obj, changed, err), w')"
    by (rule result_cases)
  with storeSyncConfigMap_status [of "world s" "targetNamespace c" name "targetNamespace c"
         "nameFor name r" refs]
  have w: "st_status w' = st_status (world s)" by simp
  from r w Cons show ?case
    by (cases err; cases obj) (simp_all add: Let_def logged_def)
qed

lemma copySecrets_store_status:
  "st_status (world (snd (copySecrets storeClients c r refs names s))) = st_status (world s)"
proof (induction names arbitrary: s)
  case Nil
  show ?case by simp
next
  case (Cons name names)
  obtain obj changed err w' where
    r: "storeSyncSecret (world s) (targetNamespace c) name (targetNamespace c) (nameFor name r) refs
          = ((obj, changed, err), w')"
    by (rule result_cases)
  with storeSyncSecret_status [of "world s" "targetNamespace c" name "targetNamespace c"
         "nameFor name r" refs]
  have w: "st_status w' = st_status (world s)" by simp
  from r w Cons show ?case
    by (cases err; cases obj) (simp_all add: Let_def logged_def)
qed

lemma createNewRevision_store:
  "st_status (world (snd (createNewRevision storeClients c r s))) = st_status (world s)
   \<and> fst (createNewRevision storeClients c r s) \<noteq> NilDeref"
proof -
  obtain marker changed err w' where
    a: "storeApplyConfigMap (world s) (statusConfigMapFor c r) = ((marker, changed, err), w')"
    by (rule result_cases)
  with storeApplyConfigMap_status [of "world s" "statusConfigMapFor c r"]
  have w: "st_status w' = st_status (world s)" by simp
  define s1 where "s1 = logged s w' (ApplyConfigMapCall (statusConfigMapFor c r))"
  have w1: "st_status (world s1) = st_status (world s)"
    using w by (simp add: s1_def logged_def)
  show ?thesis
  proof (cases err)
    case (Some e)
    with a w show ?thesis
      by (simp add: createNewRevision_def logged_def)
  next
    case None
    note noerr = None
    show ?thesis
    proof (cases marker)
      case None
      with a noerr storeApplyConfigMap_object [of "world s" "statusConfigMapFor c r" changed]
      show ?thesis by simp
    next
      case (Some scm)
      obtain e2 s2 where
        r2: "copyConfigMaps storeClients c r (ownerRefsOf scm) (configMaps c) s1 = (e2, s2)"
        by (metis surj_pair)
      obtain e3 s3 where
        r3: "copySecrets storeClients c r (ownerRefsOf scm) (secrets c) s2 = (e3, s3)"
        by (metis surj_pair)
      from r2 copyConfigMaps_store_status [of c r "ownerRefsOf scm" "configMaps c" s1] w1
      have w2: "st_status (world s2) = st_status (world s)" by simp
      from r3 copySecrets_store_status [of c r "ownerRefsOf scm" "secrets c" s2] w2
      have w3: "st_status (world s3) = st_status (world s)" by simp
      from a noerr Some r2 r3 w2 w3 show ?thesis
        by (cases e2; cases e3) (simp_all add: createNewRevision_def s1_def [symmetric])
    qed
  qed
qed

lemma storeUpdateStatus_effect:
  assumes "storeUpdateStatus w fns = ((x, b, err), w')"
  shows "st_status w' = (case err of None \<Rightarrow> fold applyUpdate fns (st_status w) | Some e \<Rightarrow> st_status w)"
  using assms nextFault_status [of w]
  by (cases "nextFault w")
     (auto simp: storeUpdateStatus_def Let_def split: option.splits if_splits)


lemma LAR_condition_update:
  "LatestAvailableRevision (fold applyUpdate [UpdateConditionFn cond] st) = LatestAvailableRevision st"
  by simp

lemma LAR_revision_update:
  "LatestAvailableRevision (fold applyUpdate [UpdateConditionFn cond, SetLatestAvailableRevision n] st) = n"
  by simp

lemma createRevisionIfNeeded_store_cases:
  assumes run: "createRevisionIfNeeded storeClients c spec (Some st) rv s = (res, s')"
  obtains
    (undecided) "isLatestRevisionCurrent storeClients c (world s) (LatestAvailableRevision st) = NilDeref"
      "res = NilDeref" "s' = s"
  | (current) reason where
      "isLatestRevisionCurrent storeClients c (world s) (LatestAvailableRevision st) = Return (True, reason)"
      "res = Return (False, None)" "s' = s"
  | (failed) reason e s1 x b ue w2 where
      "isLatestRevisionCurrent storeClients c (world s) (LatestAvailableRevision st) = Return (False, reason)"
      "createNewRevision storeClients c (LatestAvailableRevision st + 1) s = (Return (Some e), s1)"
      "storeUpdateStatus (world s1) [UpdateConditionFn (contentCreationError e)] = ((x, b, ue), w2)"
      "res = Return (True, ue)" "world s' = w2"
      "UpdateStatusCall [UpdateConditionFn (contentCreationError e)] \<in> set (trace s')"
  | (created) reason s1 x b ue w2 where
      "isLatestRevisionCurrent storeClients c (world s) (LatestAvailableRevision st) = Return (False, reason)"
      "createNewRevision storeClients c (LatestAvailableRevision st + 1) s = (Return None, s1)"
      "storeUpdateStatus (world s1)
         [UpdateConditionFn notFailing, SetLatestAvailableRevision (LatestAvailableRevision st + 1)]
         = ((x, b, ue), w2)"
      "res = Return (ue \<noteq> None, ue)" "world s' = w2"
proof (cases "isLatestRevisionCurrent storeClients c (world s) (LatestAvailableRevision st)")
  case NilDeref
  with run have "res = NilDeref" "s' = s"
    by (simp_all add: createRevisionIfNeeded_def)
  with NilDeref show ?thesis by (rule undecided)
next
  case (Return d)
  obtain cur reason where d: "d = (cur, reason)" by (metis surj_pair)
  show ?thesis
  proof (cases cur)
    case True
    with run Return d have "res = Return (False, None)" "s' = s"
      by (simp_all add: createRevisionIfNeeded_def)
    moreover from Return d True
    have "isLatestRevisionCurrent storeClients c (world s) (LatestAvailableRevision st)
            = Return (True, reason)" by simp
    ultimately show ?thesis by (rule current [rotated 1])
  next
    case False
    obtain r1 s1 where
      cr: "createNewRevision storeClients c (LatestAvailableRevision st + 1) s = (r1, s1)"
      by (metis surj_pair)
    from createNewRevision_store [of c "LatestAvailableRevision st + 1" s] cr
    have np: "r1 \<noteq> NilDeref" by simp
    then obtain eo where r1: "r1 = Return eo" by (cases r1) simp_all
    show ?thesis
    proof (cases eo)
      case (Some e)
      obtain x b ue w2 where
        u: "storeUpdateStatus (world s1) [UpdateConditionFn (contentCreationError e)] = ((x, b, ue), w2)"
        by (rule result_cases)
      from Return d False
      have dec: "isLatestRevisionCurrent storeClients c (world s) (LatestAvailableRevision st)
                   = Return (False, reason)" by simp
      from cr r1 Some
      have cr': "createNewRevision storeClients c (LatestAvailableRevision st + 1) s
                   = (Return (Some e), s1)" by simp
      from run dec cr' u
      have full: "(res, s') =
          (case ue of
             Some err \<Rightarrow>
               (Return (True, Some err),
                \<lparr>world = w2,
                 trace = (trace s1 @ [UpdateStatusCall [UpdateConditionFn (contentCreationError e)]])
                   @ [Warningf ''RevisionCreateFailed''
                        (''Failed to create revision '' @ fmt_d (sint (LatestAvailableRevision st + 1))
                           @ '': '' @ Error e)]\<rparr>)
           | None \<Rightarrow>
               (Return (True, None),
                \<lparr>world = w2,
                 trace = trace s1 @ [UpdateStatusCall [UpdateConditionFn (contentCreationError e)]]\<rparr>))"
        by (cases ue) (simp_all add: createRevisionIfNeeded_def Let_def logged_def)
      have f1: "res = Return (True, ue)"
        using full by (cases ue) simp_all
      have f2: "world s' = w2"
        using full by (cases ue) simp_all
      have f3: "UpdateStatusCall [UpdateConditionFn (contentCreationError e)] \<in> set (trace s')"
        using full by (cases ue) simp_all
      from dec cr' u f1 f2 f3 show ?thesis by (rule failed)
    next
      case None
      obtain x b ue w2 where
        u: "storeUpdateStatus (world s1)
              [UpdateConditionFn notFailing, SetLatestAvailableRevision (LatestAvailableRevision st + 1)]
              = ((x, b, ue), w2)"
        by (rule result_cases)
      from Return d False
      have dec: "isLatestRevisionCurrent storeClients c (world s) (LatestAvailableRevision st)
                   = Return (False, reason)" by simp
      from cr r1 None
      have cr': "createNewRevision storeClients c (LatestAvailableRevision st + 1) s
                   = (Return None, s1)" by simp
      from run dec cr' u
      have full: "(res, s') =
          (case ue of
             Some err \<Rightarrow>
               (Return (True, Some err),
                logged s1 w2
                  (UpdateStatusCall
                     [UpdateConditionFn notFailing,
                      SetLatestAvailableRevision (LatestAvailableRevision st + 1)]))
           | None \<Rightarrow>
               if b
               then (Return (False, None),
                     logged
                       (logged s1 w2
                          (UpdateStatusCall
                             [UpdateConditionFn notFailing,
                              SetLatestAvailableRevision (LatestAvailableRevision st + 1)]))
                       w2
                       (Eventf ''RevisionCreate''
                          (''Revision '' @ fmt_d (sint (LatestAvailableRevision st))
                             @ '' created because '' @ reason)))
               else (Return (False, None),
                     logged s1 w2
                       (UpdateStatusCall
                          [UpdateConditionFn notFailing,
                           SetLatestAvailableRevision (LatestAvailableRevision st + 1)])))"
        by (cases ue; cases b) (simp_all add: createRevisionIfNeeded_def Let_def)
      have f1: "res = Return (ue \<noteq> None, ue)"
        using full by (cases ue; cases b) simp_all
      have f2: "world s' = w2"
        using full by (cases ue; cases b) (simp_all add: logged_def)
      from dec cr' u f1 f2 show ?thesis by (rule created)
    qed
  qed
qed

lemma sint_next:
  assumes "sint (r :: int32) < 2147483647"
  shows "sint (r + 1) = sint r + 1"
proof -
  have lo: "- (2 ^ 31) \<le> sint r"
    using sint_ge [of r] by simp
  have "sint (r + 1) = signed_take_bit 31 (sint r + 1)"
    by (simp add: sint_word_add)
  also have "\<dots> = sint r + 1"
    using assms lo by (intro signed_take_bit_int_eq_self) simp_all
  finally show ?thesis .
qed

lemma sint_wraps: "sint (2147483647 + 1 :: int32) = - 2147483648"
  by simp

lemma storeOperatorGet_eq:
  "storeOperatorGet w = (Some (st_spec w), Some (st_status w), [], None)"
  by (simp add: storeOperatorGet_def)

lemma sync_store_counter:
  assumes run: "sync storeClients c s = (res, s')"
  shows "LatestAvailableRevision (st_status (world s'))
           = (if ManagementState (st_spec (world s)) = Unmanaged
                 \<or> ManagementState (st_spec (world s)) = Removed
              then LatestAvailableRevision (st_status (world s))
              else LatestAvailableRevision (st_status (world
                     (snd (createRevisionIfNeeded storeClients c (st_spec (world s))
                             (Some (st_status (world s))) [] s)))))"
proof (cases "ManagementState (st_spec (world s)) = Unmanaged
              \<or> ManagementState (st_spec (world s)) = Removed")
  case True
  with run have "s' = s"
    by (auto simp: sync_def storeOperatorGet_eq)
  with True show ?thesis by simp
next
  case False
  obtain r1 s1 where
    cr: "createRevisionIfNeeded storeClients c (st_spec (world s)) (Some (st_status (world s))) [] s
           = (r1, s1)"
    by (metis surj_pair)
  have "LatestAvailableRevision (st_status (world s')) = LatestAvailableRevision (st_status (world s1))"
  proof (cases r1)
    case NilDeref
    with run False cr show ?thesis
      by (cases "ManagementState (st_spec (world s))") (simp_all add: sync_def storeOperatorGet_eq)
  next
    case (Return p)
    obtain requeue syncErr where p: "p = (requeue, syncErr)" by (metis surj_pair)
    obtain x b ue w2 where
      u: "storeUpdateStatus (world s1) [UpdateConditionFn (failingCondition syncErr)] = ((x, b, ue), w2)"
      by (rule result_cases)
    from storeUpdateStatus_effect [OF u]
    have k: "LatestAvailableRevision (st_status w2) = LatestAvailableRevision (st_status (world s1))"
      by (cases ue) simp_all
    from run False cr Return p u
    have "world s' = world s1 \<or> world s' = w2"
      by (cases "ManagementState (st_spec (world s))"; cases ue; cases syncErr; cases requeue)
         (auto simp: sync_def storeOperatorGet_eq Let_def logged_def)
    with k show ?thesis by auto
  qed
  with False cr show ?thesis by simp
qed

lemma createRevisionIfNeeded_store_revision:
  assumes run: "createRevisionIfNeeded storeClients c spec (Some (st_status (world s))) rv s = (res, s')"
  shows "LatestAvailableRevision (st_status (world s'))
           = (if \<exists>reason s1 x b w2.
                   isLatestRevisionCurrent storeClients c (world s)
                      (LatestAvailableRevision (st_status (world s))) = Return (False, reason)
                   \<and> createNewRevision storeClients c (LatestAvailableRevision (st_status (world s)) + 1) s
                        = (Return None, s1)
                   \<and> storeUpdateStatus (world s1)
                        [UpdateConditionFn notFailing,
                         SetLatestAvailableRevision (LatestAvailableRevision (st_status (world s)) + 1)]
                        = ((x, b, None), w2)
              then LatestAvailableRevision (st_status (world s)) + 1
              else LatestAvailableRevision (st_status (world s)))"
  using run
proof (cases rule: createRevisionIfNeeded_store_cases)
  case undecided
  then show ?thesis by simp
next
  case (current reason)
  then show ?thesis by simp
next
  case (failed reason e s1 x b ue w2)
  from createNewRevision_store [of c "LatestAvailableRevision (st_status (world s)) + 1" s] failed(2)
  have keep: "st_status (world s1) = st_status (world s)" by simp
  from storeUpdateStatus_effect [OF failed(3)] keep
  have "LatestAvailableRevision (st_status w2) = LatestAvailableRevision (st_status (world s))"
    by (cases ue) simp_all
  with failed show ?thesis by simp
next
  case (created reason s1 x b ue w2)
  from createNewRevision_store [of c "LatestAvailableRevision (st_status (world s)) + 1" s] created(2)
  have keep: "st_status (world s1) = st_status (world s)" by simp
  show ?thesis
  proof (cases ue)
    case None
    with storeUpdateStatus_effect [OF created(3)] keep
    have "LatestAvailableRevision (st_status w2)
            = LatestAvailableRevision (st_status (world s)) + 1"
      by simp
    with created None show ?thesis by simp
  next
    case (Some e')
    with storeUpdateStatus_effect [OF created(3)] keep
    have "LatestAvailableRevision (st_status w2) = LatestAvailableRevision (st_status (world s))"
      by simp
    with created Some show ?thesis by simp
  qed
qed

subsection \<open>The revision counter across a pass\<close>

text \<open>
  Claim C2, as amended. Across a reconciliation pass over the reference store,
  \<^verbatim>\<open>latestAvailableRevision\<close> is either left as it was or replaced by
  \<^verbatim>\<open>latestAvailableRevision + 1\<close> in \<^verbatim>\<open>int32\<close> arithmetic; hence it never decreases, and grows
  by at most 1, as long as it is below 2147483647, the largest \<^verbatim>\<open>int32\<close>. The revision
  attempted is always \<^verbatim>\<open>latestAvailableRevision + 1\<close>, and a \<^verbatim>\<open>createNewRevision\<close> that
  succeeds for it increases the counter by exactly 1 when the status update that carries
  the new value is accepted.
\<close>

theorem sync_counter:
  assumes run: "sync storeClients c s = (res, s')"
  shows "(LatestAvailableRevision (st_status (world s')) = LatestAvailableRevision (st_status (world s))
          \<or> LatestAvailableRevision (st_status (world s'))
               = LatestAvailableRevision (st_status (world s)) + 1)
         \<and> (sint (LatestAvailableRevision (st_status (world s))) < 2147483647 \<longrightarrow>
               sint (LatestAvailableRevision (st_status (world s')))
                 = sint (LatestAvailableRevision (st_status (world s)))
               \<or> sint (LatestAvailableRevision (st_status (world s')))
                 = sint (LatestAvailableRevision (st_status (world s))) + 1)
         \<and> (\<forall>reason s1 x b w2.
               ManagementState (st_spec (world s)) \<noteq> Unmanaged
               \<and> ManagementState (st_spec (world s)) \<noteq> Removed
               \<and> isLatestRevisionCurrent storeClients c (world s)
                    (LatestAvailableRevision (st_status (world s))) = Return (False, reason)
               \<and> createNewRevision storeClients c (LatestAvailableRevision (st_status (world s)) + 1) s
                    = (Return None, s1)
               \<and> storeUpdateStatus (world s1)
                    [UpdateConditionFn notFailing,
                     SetLatestAvailableRevision (LatestAvailableRevision (st_status (world s)) + 1)]
                    = ((x, b, None), w2)
               \<longrightarrow> LatestAvailableRevision (st_status (world s'))
                     = LatestAvailableRevision (st_status (world s)) + 1)"
proof -
  let ?L = "LatestAvailableRevision (st_status (world s))"
  let ?L' = "LatestAvailableRevision (st_status (world s'))"
  let ?r = "createRevisionIfNeeded storeClients c (st_spec (world s)) (Some (st_status (world s))) [] s"
  have r: "?r = (fst ?r, snd ?r)" by simp
  note step = createRevisionIfNeeded_store_revision [OF r]
  note pass = sync_store_counter [OF run]
  have a: "?L' = ?L \<or> ?L' = ?L + 1"
    using pass step by (auto split: if_splits)
  have b: "sint ?L < 2147483647 \<longrightarrow> sint ?L' = sint ?L \<or> sint ?L' = sint ?L + 1"
    using a sint_next [of ?L] by auto
  have c: "\<forall>reason s1 x b w2.
               ManagementState (st_spec (world s)) \<noteq> Unmanaged
               \<and> ManagementState (st_spec (world s)) \<noteq> Removed
               \<and> isLatestRevisionCurrent storeClients c (world s) ?L = Return (False, reason)
               \<and> createNewRevision storeClients c (?L + 1) s = (Return None, s1)
               \<and> storeUpdateStatus (world s1)
                    [UpdateConditionFn notFailing, SetLatestAvailableRevision (?L + 1)]
                    = ((x, b, None), w2)
               \<longrightarrow> ?L' = ?L + 1"
    using pass step by auto
  from a b c show ?thesis by blast
qed

theorem sync_counter_witness:
  "LatestAvailableRevision (st_status (world (exampleRun []))) = 1
   \<and> sint (1 :: int32) < 2147483647
   \<and> LatestAvailableRevision (st_status (world (snd (sync storeClients exampleController (exampleRun [])))))
       = 2"
proof -
  define s where "s = exampleRun []"
  define s1 where "s1 = snd (createNewRevision storeClients exampleController 2 s)"
  define u where "u = storeUpdateStatus (world s1) [UpdateConditionFn notFailing, SetLatestAvailableRevision 2]"
  have l: "LatestAvailableRevision (st_status (world s)) = 1"
    by (simp add: s_def example_simps)
  have run: "sync storeClients exampleController s
               = (fst (sync storeClients exampleController s), snd (sync storeClients exampleController s))"
    by simp
  have m: "ManagementState (st_spec (world s)) \<noteq> Unmanaged"
          "ManagementState (st_spec (world s)) \<noteq> Removed"
    by (simp_all add: s_def example_simps)
  have dec: "isLatestRevisionCurrent storeClients exampleController (world s)
               (LatestAvailableRevision (st_status (world s)))
             = Return (False, ''configmap/config has changed'')"
    unfolding l by (simp add: s_def exampleRun_def example_decision)
  have "fst (createNewRevision storeClients exampleController 2 s) = Return None"
    by (simp add: s_def run_simps store_simps example_simps fmt_simps)
  then have cr: "createNewRevision storeClients exampleController
                   (LatestAvailableRevision (st_status (world s)) + 1) s = (Return None, s1)"
    unfolding l s1_def by (simp add: prod_eq_iff)
  have "snd (snd (fst u)) = None"
    unfolding u_def s1_def
    by (simp add: s_def run_simps store_simps example_simps fmt_simps)
  then have up: "storeUpdateStatus (world s1)
                   [UpdateConditionFn notFailing,
                    SetLatestAvailableRevision (LatestAvailableRevision (st_status (world s)) + 1)]
                 = ((fst (fst u), fst (snd (fst u)), None), snd u)"
    unfolding l u_def by (simp add: prod_eq_iff)
  from m dec cr up
  have h: "ManagementState (st_spec (world s)) \<noteq> Unmanaged
           \<and> ManagementState (st_spec (world s)) \<noteq> Removed
           \<and> isLatestRevisionCurrent storeClients exampleController (world s)
                (LatestAvailableRevision (st_status (world s)))
              = Return (False, ''configmap/config has changed'')
           \<and> createNewRevision storeClients exampleController
                (LatestAvailableRevision (st_status (world s)) + 1) s = (Return None, s1)
           \<and> storeUpdateStatus (world s1)
                [UpdateConditionFn notFailing,
                 SetLatestAvailableRevision (LatestAvailableRevision (st_status (world s)) + 1)]
              = ((fst (fst u), fst (snd (fst u)), None), snd u)"
    by simp
  note T = sync_counter [OF run, THEN conjunct2, THEN conjunct2, rule_format, OF h]
  from T l show ?thesis
    unfolding s_def by simp
qed

text \<open>
  The claim as first stated fails in two ways. At 2147483647 the next revision wraps
  around: the pass succeeds and leaves the counter at -2147483648. And a creation that
  succeeds does not advance the counter when the status update is rejected: the counter
  stays at 1.
\<close>

theorem sync_counter_counterexample:
  "sint (LatestAvailableRevision (st_status
      ((exampleStore [])\<lparr>st_status := \<lparr>LatestAvailableRevision = 2147483647, Conditions = []\<rparr>\<rparr>)))
     = 2147483647
   \<and> fst (sync storeClients exampleController
        \<lparr>world = (exampleStore [])\<lparr>st_status := \<lparr>LatestAvailableRevision = 2147483647, Conditions = []\<rparr>\<rparr>,
         trace = []\<rparr>)
     = Return None
   \<and> sint (LatestAvailableRevision (st_status (world (snd (sync storeClients exampleController
        \<lparr>world = (exampleStore [])\<lparr>st_status := \<lparr>LatestAvailableRevision = 2147483647, Conditions = []\<rparr>\<rparr>,
         trace = []\<rparr>)))))
     = - 2147483648
   \<and> fst (createNewRevision storeClients exampleController 2
          (exampleRun [None, None, None, Some (OtherError ''the object has been modified'')]))
     = Return None
   \<and> LatestAvailableRevision (st_status (world
          (exampleRun [None, None, None, Some (OtherError ''the object has been modified'')])))
     = 1
   \<and> LatestAvailableRevision (st_status (world (snd (sync storeClients exampleController
          (exampleRun [None, None, None, Some (OtherError ''the object has been modified'')])))))
     = 1"
  by (simp add: run_simps store_simps example_simps fmt_simps map_upd_neq)

subsection \<open>When the revision counter advances\<close>
















subsection \<open>Which error sync returns\<close>

text \<open>
  Claim C4, as amended. When \<^verbatim>\<open>createRevisionIfNeeded\<close> reports an error, that error is
  the error of the status write it made itself: the \<^verbatim>\<open>ContentCreationError\<close> condition
  write after a failed creation, whose error is returned in place of the creation error,
  or the write that advances the revision after a successful creation. \<^verbatim>\<open>sync\<close> returns
  exactly that error, whether or not its own final Failing-condition write fails too. The
  error of the final write is returned only when there was no earlier error and no
  requeue was requested.
\<close>

theorem sync_returned_error:
  assumes "OperatorGet k (world s) = (Some spec, Some st, rv, None)"
      and "ManagementState spec \<noteq> Unmanaged" and "ManagementState spec \<noteq> Removed"
      and "createRevisionIfNeeded k c spec (Some st) rv s = (Return (requeue, syncErr), s1)"
      and "UpdateStatus k (world s1) [UpdateConditionFn (failingCondition syncErr)]
             = ((obj, changed, updateError), w2)"
  shows "fst (sync k c s)
           = Return (case syncErr of
                       Some e \<Rightarrow> Some e
                     | None \<Rightarrow> if requeue then Some syntheticRequeue else updateError)
         \<and> (\<forall>e. syncErr = Some e \<longrightarrow>
               (\<exists>e0 s' x b w'.
                   createNewRevision k c (LatestAvailableRevision st + 1) s = (Return (Some e0), s')
                   \<and> UpdateStatus k (world s') [UpdateConditionFn (contentCreationError e0)]
                       = ((x, b, Some e), w'))
             \<or> (\<exists>s' x b w'.
                   createNewRevision k c (LatestAvailableRevision st + 1) s = (Return None, s')
                   \<and> UpdateStatus k (world s')
                        [UpdateConditionFn notFailing,
                         SetLatestAvailableRevision (LatestAvailableRevision st + 1)]
                       = ((x, b, Some e), w')))"
proof -
  have a: "fst (sync k c s)
           = Return (case syncErr of
                       Some e \<Rightarrow> Some e
                     | None \<Rightarrow> if requeue then Some syntheticRequeue else updateError)"
    using assms
    by (cases "ManagementState spec"; cases syncErr; cases updateError)
       (auto simp: sync_def Let_def)
  have b: "\<forall>e. syncErr = Some e \<longrightarrow>
               (\<exists>e0 s' x b w'.
                   createNewRevision k c (LatestAvailableRevision st + 1) s = (Return (Some e0), s')
                   \<and> UpdateStatus k (world s') [UpdateConditionFn (contentCreationError e0)]
                       = ((x, b, Some e), w'))
             \<or> (\<exists>s' x b w'.
                   createNewRevision k c (LatestAvailableRevision st + 1) s = (Return None, s')
                   \<and> UpdateStatus k (world s')
                        [UpdateConditionFn notFailing,
                         SetLatestAvailableRevision (LatestAvailableRevision st + 1)]
                       = ((x, b, Some e), w'))"
    using assms(4)
    by (auto simp: createRevisionIfNeeded_def Let_def
             split: outcome.splits option.splits prod.splits if_splits)
  from a b show ?thesis by blast
qed

theorem sync_returned_error_witness:
  "fst (sync storeClients exampleController
          (exampleRun [Some (OtherError ''apply failed''),
                       Some (OtherError ''conflict on the first status write''),
                       Some (OtherError ''conflict on the final status write'')]))
     = Return (Some (OtherError ''conflict on the first status write''))
   \<and> fst (createNewRevision storeClients exampleController 2
          (exampleRun [Some (OtherError ''apply failed''),
                       Some (OtherError ''conflict on the first status write''),
                       Some (OtherError ''conflict on the final status write'')]))
     = Return (Some (OtherError ''apply failed''))"
proof -
  define F where "F = [Some (OtherError ''apply failed''),
                       Some (OtherError ''conflict on the first status write''),
                       Some (OtherError ''conflict on the final status write'')]"
  define s where "s = exampleRun F"
  define spec where "spec = st_spec (exampleStore F)"
  define st where "st = st_status (exampleStore F)"
  define e where "e = OtherError ''conflict on the first status write''"
  define s1 where "s1 = snd (createRevisionIfNeeded storeClients exampleController spec (Some st) [] s)"
  define r where "r = UpdateStatus storeClients (world s1) [UpdateConditionFn (failingCondition (Some e))]"
  have g: "OperatorGet storeClients (world s) = (Some spec, Some st, [], None)"
    by (simp add: s_def spec_def st_def store_simps example_simps)
  have m: "ManagementState spec \<noteq> Unmanaged" "ManagementState spec \<noteq> Removed"
    by (simp_all add: spec_def example_simps)
  have "fst (createRevisionIfNeeded storeClients exampleController spec (Some st) [] s)
          = Return (True, Some e)"
    by (simp add: s_def spec_def st_def e_def F_def run_simps store_simps example_simps fmt_simps
          map_upd_neq)
  then have c: "createRevisionIfNeeded storeClients exampleController spec (Some st) [] s
                  = (Return (True, Some e), s1)"
    unfolding s1_def by (simp add: prod_eq_iff)
  have u: "UpdateStatus storeClients (world s1) [UpdateConditionFn (failingCondition (Some e))]
             = ((fst (fst r), fst (snd (fst r)), snd (snd (fst r))), snd r)"
    unfolding r_def by simp
  have n: "fst (createNewRevision storeClients exampleController 2 (exampleRun F))
             = Return (Some (OtherError ''apply failed''))"
    by (simp add: F_def run_simps store_simps example_simps fmt_simps)
  from sync_returned_error [OF g m c u] n show ?thesis
    unfolding s_def e_def F_def by simp
qed

theorem sync_final_write_error_counterexample:
  "fst (createRevisionIfNeeded storeClients exampleController (st_spec (exampleStore []))
          (Some (st_status (exampleStore []))) []
          (exampleRun [None, None, None, Some (OtherError ''conflict writing the revision''),
                       Some (OtherError ''conflict writing the condition'')]))
     = Return (True, Some (OtherError ''conflict writing the revision''))
   \<and> snd (snd (fst (UpdateStatus storeClients
          (world (snd (createRevisionIfNeeded storeClients exampleController (st_spec (exampleStore []))
             (Some (st_status (exampleStore []))) []
             (exampleRun [None, None, None, Some (OtherError ''conflict writing the revision''),
                          Some (OtherError ''conflict writing the condition'')]))))
          [UpdateConditionFn (failingCondition (Some (OtherError ''conflict writing the revision'')))])))
     = Some (OtherError ''conflict writing the condition'')
   \<and> fst (sync storeClients exampleController
          (exampleRun [None, None, None, Some (OtherError ''conflict writing the revision''),
                       Some (OtherError ''conflict writing the condition'')]))
     = Return (Some (OtherError ''conflict writing the revision''))
   \<and> OtherError ''conflict writing the revision'' \<noteq> OtherError ''conflict writing the condition''"
  by (simp add: run_simps store_simps example_simps fmt_simps map_upd_neq)

subsection \<open>An absent source\<close>

lemma copyConfigMaps_append:
  "copyConfigMaps k c r refs (xs @ ys) s =
     (case copyConfigMaps k c r refs xs s of
        (None, s') \<Rightarrow> copyConfigMaps k c r refs ys s'
      | (Some e, s') \<Rightarrow> (Some e, s'))"
proof (induction xs arbitrary: s)
  case Nil
  show ?case by simp
next
  case (Cons name xs)
  obtain obj changed err w' where
    "SyncConfigMap k (world s) (targetNamespace c) name (targetNamespace c) (nameFor name r) refs
       = ((obj, changed, err), w')"
    by (rule result_cases)
  with Cons show ?case
    by (cases err; cases obj) (simp_all add: Let_def)
qed

lemma copySecrets_append:
  "copySecrets k c r refs (xs @ ys) s =
     (case copySecrets k c r refs xs s of
        (None, s') \<Rightarrow> copySecrets k c r refs ys s'
      | (Some e, s') \<Rightarrow> (Some e, s'))"
proof (induction xs arbitrary: s)
  case Nil
  show ?case by simp
next
  case (Cons name xs)
  obtain obj changed err w' where
    "SyncSecret k (world s) (targetNamespace c) name (targetNamespace c) (nameFor name r) refs
       = ((obj, changed, err), w')"
    by (rule result_cases)
  with Cons show ?case
    by (cases err; cases obj) (simp_all add: Let_def)
qed

lemma mentions_empty: "mentions t []"
  by (cases t) simp_all

lemma mentions_self: "mentions (s @ t) s"
  by (cases s) (simp_all add: mentions_empty)

lemma mentions_append: "mentions t s \<Longrightarrow> mentions (pre @ t) s"
proof (induction pre)
  case Nil
  then show ?case by simp
next
  case (Cons x pre)
  then show ?case by simp
qed

lemma mentions_middle: "mentions (pre @ s @ post) s"
  by (rule mentions_append) (rule mentions_self)

lemma plain_not_escaped:
  "c \<in> set ''abcdefghijklmnopqrstuvwxyz0123456789-.'' \<Longrightarrow> map_of goEscapes c = None"
proof -
  assume c: "c \<in> set ''abcdefghijklmnopqrstuvwxyz0123456789-.''"
  have "list_all (\<lambda>c. map_of goEscapes c = None) ''abcdefghijklmnopqrstuvwxyz0123456789-.''"
    by (simp add: goEscapes_def)
  with c show ?thesis by (simp only: list_all_iff)
qed

lemma plain_quoted: "plainName s \<Longrightarrow> quoted s = CHR 0x22 # s @ [CHR 0x22]"
proof -
  assume p: "plainName s"
  have "concat (map (\<lambda>c. case map_of goEscapes c of None \<Rightarrow> [c] | Some e \<Rightarrow> e) s) = s"
    using p unfolding plainName_def
  proof (induction s)
    case Nil
    show ?case by simp
  next
    case (Cons c s)
    from Cons.prems have "map_of goEscapes c = None"
      by (intro plain_not_escaped) simp
    moreover from Cons have "concat (map (\<lambda>c. case map_of goEscapes c of None \<Rightarrow> [c] | Some e \<Rightarrow> e) s) = s"
      by simp
    ultimately show ?case by simp
  qed
  then show ?thesis by (simp add: quoted_def)
qed

lemma storeNotFoundMessage_plain:
  "plainName name \<Longrightarrow>
   storeNotFoundMessage resource name = resource @ '' '' @ [CHR 0x22] @ name @ [CHR 0x22] @ '' not found''"
  by (simp add: storeNotFoundMessage_def plain_quoted)

lemma storeNotFoundMessage_mentions:
  "mentions (storeNotFoundMessage resource name) resource
   \<and> (plainName name \<longrightarrow> mentions (storeNotFoundMessage resource name) name)"
proof -
  have a: "mentions (storeNotFoundMessage resource name) resource"
    unfolding storeNotFoundMessage_def by (rule mentions_self)
  have b: "mentions (storeNotFoundMessage resource name) name" if "plainName name"
  proof -
    from that have "storeNotFoundMessage resource name
                      = (resource @ '' '' @ [CHR 0x22]) @ name @ ([CHR 0x22] @ '' not found'')"
      by (simp add: storeNotFoundMessage_plain)
    then show ?thesis by (simp only: mentions_middle)
  qed
  from a b show ?thesis by blast
qed

text \<open>
  Claim C5, as amended. During \<^verbatim>\<open>createNewRevision\<close>, when the marker has been applied,
  every earlier copy has gone through, and the copy of a config map or of a secret
  reports no object and no error (the source is absent), the operation fails with the
  not-found error built from the resource (\<^verbatim>\<open>configmaps\<close> or \<^verbatim>\<open>secrets\<close>) and the name
  of the missing source, with the message formatted from these two alone. The namespace
  is not passed to the error and is no part of it. In the store's wording,
  \<^verbatim>\<open><resource> "<name>" not found\<close> for a name of lower-case letters, digits, \<^verbatim>\<open>-\<close> and
  \<^verbatim>\<open>.\<close>, the text names the resource and such a name.
\<close>

theorem createNewRevision_absent_source:
  assumes "ApplyConfigMap k (world s) (statusConfigMapFor c r) = ((Some marker, changed, None), w1)"
      and "s1 = logged s w1 (ApplyConfigMapCall (statusConfigMapFor c r))"
      and "(resource = ''configmaps''
              \<and> configMaps c = copied @ name # rest
              \<and> copyConfigMaps k c r (ownerRefsOf marker) copied s1 = (None, s2)
              \<and> fst (SyncConfigMap k (world s2) (targetNamespace c) name (targetNamespace c)
                        (nameFor name r) (ownerRefsOf marker)) = (None, ch, None))
           \<or> (resource = ''secrets''
              \<and> copyConfigMaps k c r (ownerRefsOf marker) (configMaps c) s1 = (None, s1')
              \<and> secrets c = copied @ name # rest
              \<and> copySecrets k c r (ownerRefsOf marker) copied s1' = (None, s2)
              \<and> fst (SyncSecret k (world s2) (targetNamespace c) name (targetNamespace c)
                        (nameFor name r) (ownerRefsOf marker)) = (None, ch, None))"
  shows "fst (createNewRevision k c r s)
           = Return (Some (NotFound resource name (NotFoundMessage k resource name)))
         \<and> mentions (storeNotFoundMessage resource name) resource
         \<and> (plainName name \<longrightarrow>
               storeNotFoundMessage resource name
                 = resource @ '' '' @ [CHR 0x22] @ name @ [CHR 0x22] @ '' not found''
               \<and> mentions (storeNotFoundMessage resource name) name)"
proof -
  from assms(3) have "fst (createNewRevision k c r s)
           = Return (Some (NotFound resource name (NotFoundMessage k resource name)))"
  proof
    assume h: "resource = ''configmaps''
              \<and> configMaps c = copied @ name # rest
              \<and> copyConfigMaps k c r (ownerRefsOf marker) copied s1 = (None, s2)
              \<and> fst (SyncConfigMap k (world s2) (targetNamespace c) name (targetNamespace c)
                        (nameFor name r) (ownerRefsOf marker)) = (None, ch, None)"
    then obtain w3 where
      "SyncConfigMap k (world s2) (targetNamespace c) name (targetNamespace c)
                        (nameFor name r) (ownerRefsOf marker) = ((None, ch, None), w3)"
      by (cases "SyncConfigMap k (world s2) (targetNamespace c) name (targetNamespace c)
                        (nameFor name r) (ownerRefsOf marker)") auto
    with h assms(1,2) show ?thesis
      by (simp add: createNewRevision_def copyConfigMaps_append Let_def)
  next
    assume h: "resource = ''secrets''
              \<and> copyConfigMaps k c r (ownerRefsOf marker) (configMaps c) s1 = (None, s1')
              \<and> secrets c = copied @ name # rest
              \<and> copySecrets k c r (ownerRefsOf marker) copied s1' = (None, s2)
              \<and> fst (SyncSecret k (world s2) (targetNamespace c) name (targetNamespace c)
                        (nameFor name r) (ownerRefsOf marker)) = (None, ch, None)"
    then obtain w3 where
      "SyncSecret k (world s2) (targetNamespace c) name (targetNamespace c)
                        (nameFor name r) (ownerRefsOf marker) = ((None, ch, None), w3)"
      by (cases "SyncSecret k (world s2) (targetNamespace c) name (targetNamespace c)
                        (nameFor name r) (ownerRefsOf marker)") auto
    with h assms(1,2) show ?thesis
      by (simp add: createNewRevision_def copySecrets_append Let_def)
  qed
  with storeNotFoundMessage_mentions [of resource name] storeNotFoundMessage_plain [of name resource]
  show ?thesis by blast
qed

theorem createNewRevision_absent_source_witness:
  "fst (createNewRevision storeClients exampleControllerD 2 (exampleRun []))
     = Return (Some (NotFound ''secrets'' ''token''
                       (''secrets '' @ [CHR 0x22] @ ''token'' @ [CHR 0x22] @ '' not found'')))
   \<and> mentions (''secrets '' @ [CHR 0x22] @ ''token'' @ [CHR 0x22] @ '' not found'') ''token''
   \<and> mentions (''secrets '' @ [CHR 0x22] @ ''token'' @ [CHR 0x22] @ '' not found'') ''secrets''
   \<and> plainName ''token''
   \<and> st_secrets (exampleStore []) (''target'', ''token'') = None
   \<and> storeNotFoundMessage ''secrets'' [CHR ''a'', CHR 0x22, CHR ''b'']
       = ''secrets '' @ [CHR 0x22, CHR ''a'', CHR 0x5C, CHR 0x22, CHR ''b'', CHR 0x22] @ '' not found''"
proof -
  define c where "c = exampleControllerD"
  define s where "s = exampleRun []"
  define a where "a = ApplyConfigMap storeClients (world s) (statusConfigMapFor c 2)"
  define marker where "marker = storedConfigMap ''target'' ''revision-status-2''
                   [''status'' \<mapsto> ''InProgress'', ''revision'' \<mapsto> ''2'']"
  define s1 where "s1 = logged s (snd a) (ApplyConfigMapCall (statusConfigMapFor c 2))"
  define s1' where "s1' = snd (copyConfigMaps storeClients c 2 (ownerRefsOf marker) (configMaps c) s1)"
  define s2 where "s2 = snd (copySecrets storeClients c 2 (ownerRefsOf marker) [''key''] s1')"
  have "fst a = (Some marker, True, None)"
    by (simp add: a_def s_def c_def marker_def run_simps store_simps example_simps exampleControllerD_def fmt_simps)
  then have h1: "ApplyConfigMap storeClients (world s) (statusConfigMapFor c 2)
                   = ((Some marker, True, None), snd a)"
    unfolding a_def by (simp add: prod_eq_iff)
  have h2: "s1 = logged s (snd a) (ApplyConfigMapCall (statusConfigMapFor c 2))"
    by (rule s1_def)
  have "fst (copyConfigMaps storeClients c 2 (ownerRefsOf marker) (configMaps c) s1) = None"
    by (simp add: s1_def a_def s_def c_def marker_def run_simps store_simps example_simps exampleControllerD_def fmt_simps)
  then have p1: "copyConfigMaps storeClients c 2 (ownerRefsOf marker) (configMaps c) s1 = (None, s1')"
    unfolding s1'_def by (simp add: prod_eq_iff)
  have p2: "secrets c = [''key''] @ ''token'' # []"
    by (simp add: c_def example_simps exampleControllerD_def)
  have "fst (copySecrets storeClients c 2 (ownerRefsOf marker) [''key''] s1') = None"
    by (simp add: s1'_def s1_def a_def s_def c_def marker_def run_simps store_simps example_simps exampleControllerD_def
          fmt_simps)
  then have p3: "copySecrets storeClients c 2 (ownerRefsOf marker) [''key''] s1' = (None, s2)"
    unfolding s2_def by (simp add: prod_eq_iff)
  have p4: "fst (SyncSecret storeClients (world s2) (targetNamespace c) ''token'' (targetNamespace c)
                   (nameFor ''token'' 2) (ownerRefsOf marker)) = (None, False, None)"
    by (simp add: s2_def s1'_def s1_def a_def s_def c_def marker_def run_simps store_simps
          example_simps exampleControllerD_def fmt_simps)
  have absent: "st_secrets (exampleStore []) (''target'', ''token'') = None"
    by (simp add: example_simps exampleControllerD_def)
  from p1 p2 p3 p4 have d:
    "(''secrets'' = ''configmaps''
        \<and> configMaps c = [''key''] @ ''token'' # []
        \<and> copyConfigMaps storeClients c 2 (ownerRefsOf marker) [''key''] s1 = (None, s2)
        \<and> fst (SyncConfigMap storeClients (world s2) (targetNamespace c) ''token'' (targetNamespace c)
                  (nameFor ''token'' 2) (ownerRefsOf marker)) = (None, False, None))
     \<or> (''secrets'' = ''secrets''
        \<and> copyConfigMaps storeClients c 2 (ownerRefsOf marker) (configMaps c) s1 = (None, s1')
        \<and> secrets c = [''key''] @ ''token'' # []
        \<and> copySecrets storeClients c 2 (ownerRefsOf marker) [''key''] s1' = (None, s2)
        \<and> fst (SyncSecret storeClients (world s2) (targetNamespace c) ''token'' (targetNamespace c)
                  (nameFor ''token'' 2) (ownerRefsOf marker)) = (None, False, None))"
    by simp
  have pl: "plainName ''token''"
    by (simp add: plainName_def)
  have esc: "storeNotFoundMessage ''secrets'' [CHR ''a'', CHR 0x22, CHR ''b'']
       = ''secrets '' @ [CHR 0x22, CHR ''a'', CHR 0x5C, CHR 0x22, CHR ''b'', CHR 0x22] @ '' not found''"
    by (simp add: storeNotFoundMessage_def quoted_def goEscapes_def)
  from createNewRevision_absent_source [OF h1 h2 d] absent pl esc show ?thesis
    unfolding c_def s_def by simp
qed

text \<open>
  The claim as first stated has the error name the namespace as well. It does not: the
  error for the absent secret \<^verbatim>\<open>token\<close> of namespace \<^verbatim>\<open>target\<close> reads
  \<^verbatim>\<open>secrets "token" not found\<close>, and a controller of another namespace gets the very
  same error for the same name.
\<close>

theorem createNewRevision_not_found_namespace_counterexample:
  "fst (createNewRevision storeClients exampleControllerD 2 (exampleRun []))
     = Return (Some (NotFound ''secrets'' ''token''
                       (''secrets '' @ [CHR 0x22] @ ''token'' @ [CHR 0x22] @ '' not found'')))
   \<and> targetNamespace exampleControllerD = ''target''
   \<and> \<not> mentions (''secrets '' @ [CHR 0x22] @ ''token'' @ [CHR 0x22] @ '' not found'') ''target''
   \<and> fst (createNewRevision storeClients
           \<lparr>targetNamespace = ''target'', configMaps = [], secrets = [''token'']\<rparr> 2 (exampleRun []))
     = Return (Some (NotFound ''secrets'' ''token''
                       (''secrets '' @ [CHR 0x22] @ ''token'' @ [CHR 0x22] @ '' not found'')))
   \<and> fst (createNewRevision storeClients
           \<lparr>targetNamespace = ''elsewhere'', configMaps = [], secrets = [''token'']\<rparr> 2 (exampleRun []))
     = Return (Some (NotFound ''secrets'' ''token''
                       (''secrets '' @ [CHR 0x22] @ ''token'' @ [CHR 0x22] @ '' not found'')))"
  by (simp add: run_simps store_simps example_simps exampleControllerD_def fmt_simps)

subsection \<open>The synthetic requeue\<close>

text \<open>
  Claim C6. Whenever \<^verbatim>\<open>createRevisionIfNeeded\<close> asks for a requeue, \<^verbatim>\<open>sync\<close> returns a
  non-nil error, on which the dispatch loop re-adds the key rate-limited: \<^verbatim>\<open>sync\<close>
  never returns success when a requeue was requested. When the requeue comes with no
  error, the error returned is the synthetic requeue error, and \<^verbatim>\<open>sync\<close> returns it at
  once.
\<close>

theorem sync_requeue_is_error:
  assumes "OperatorGet k (world s) = (Some spec, st, rv, None)"
      and "ManagementState spec \<noteq> Unmanaged" and "ManagementState spec \<noteq> Removed"
      and "createRevisionIfNeeded k c spec st rv s = (Return (True, syncErr), s1)"
  shows "(\<exists>e. fst (sync k c s) = Return (Some e) \<and> afterSync (Some e) = AddRateLimited)
         \<and> (syncErr = None \<longrightarrow> sync k c s = (Return (Some syntheticRequeue), s1))"
  using assms
  by (cases "ManagementState spec"; cases syncErr;
      cases "UpdateStatus k (world s1) [UpdateConditionFn (failingCondition syncErr)]")
     (auto simp: sync_def Let_def split: option.splits)

theorem sync_requeue_is_error_witness:
  "fst (createRevisionIfNeeded storeClients exampleController (st_spec (exampleStore []))
          (Some (st_status (exampleStore []))) [] (exampleRun [Some (OtherError ''apply failed'')]))
     = Return (True, None)
   \<and> fst (sync storeClients exampleController (exampleRun [Some (OtherError ''apply failed'')]))
     = Return (Some (OtherError ''synthetic requeue request (err: <nil>)''))
   \<and> afterSync (Some (OtherError ''synthetic requeue request (err: <nil>)'')) = AddRateLimited"
proof -
  define s where "s = exampleRun [Some (OtherError ''apply failed'')]"
  define s1 where "s1 = snd (createRevisionIfNeeded storeClients exampleController (st_spec (exampleStore []))
          (Some (st_status (exampleStore []))) [] s)"
  have g: "OperatorGet storeClients (world s)
             = (Some (st_spec (exampleStore [])), Some (st_status (exampleStore [])), [], None)"
    by (simp add: s_def store_simps example_simps)
  have m: "ManagementState (st_spec (exampleStore [])) \<noteq> Unmanaged"
          "ManagementState (st_spec (exampleStore [])) \<noteq> Removed"
    by (simp_all add: example_simps)
  have f: "fst (createRevisionIfNeeded storeClients exampleController (st_spec (exampleStore []))
          (Some (st_status (exampleStore []))) [] s) = Return (True, None)"
    by (simp add: s_def run_simps store_simps example_simps fmt_simps map_upd_neq)
  then have c: "createRevisionIfNeeded storeClients exampleController (st_spec (exampleStore []))
          (Some (st_status (exampleStore []))) [] s = (Return (True, None), s1)"
    unfolding s1_def by (simp add: prod_eq_iff)
  from sync_requeue_is_error [OF g m c] f show ?thesis
    unfolding s_def by (simp add: syntheticRequeue_def)
qed

subsection \<open>Unmanaged and Removed\<close>

text \<open>
  Claim C7. When the operator client returns a spec whose management state is
  \<^verbatim>\<open>Unmanaged\<close> or \<^verbatim>\<open>Removed\<close>, \<^verbatim>\<open>sync\<close> returns nil and leaves everything as it was:
  the world is unchanged and nothing is added to the trace, so no config map or secret is
  applied or copied, no status update is made and no event is recorded. This holds
  whatever the other functions of the clients would answer: no revision decision is taken.
\<close>

theorem sync_unmanaged_or_removed_noop:
  assumes "OperatorGet k (world s) = (Some spec, st, rv, None)"
      and "ManagementState spec = Unmanaged \<or> ManagementState spec = Removed"
  shows "sync k c s = (Return None, s)"
  using assms by (auto simp: sync_def)

theorem sync_unmanaged_or_removed_noop_witness:
  "sync storeClients exampleController
     \<lparr>world = (exampleStore [])\<lparr>st_spec := \<lparr>ManagementState = Unmanaged\<rparr>\<rparr>, trace = []\<rparr>
     = (Return None, \<lparr>world = (exampleStore [])\<lparr>st_spec := \<lparr>ManagementState = Unmanaged\<rparr>\<rparr>, trace = []\<rparr>)
   \<and> sync storeClients exampleController
     \<lparr>world = (exampleStore [])\<lparr>st_spec := \<lparr>ManagementState = Removed\<rparr>\<rparr>, trace = []\<rparr>
     = (Return None, \<lparr>world = (exampleStore [])\<lparr>st_spec := \<lparr>ManagementState = Removed\<rparr>\<rparr>, trace = []\<rparr>)
   \<and> fst (sync storeClients exampleController \<lparr>world = exampleStore [], trace = []\<rparr>) = Return None
   \<and> length (trace (snd (sync storeClients exampleController \<lparr>world = exampleStore [], trace = []\<rparr>))) = 6"
proof -
  have u: "OperatorGet storeClients
             (world \<lparr>world = (exampleStore [])\<lparr>st_spec := \<lparr>ManagementState = Unmanaged\<rparr>\<rparr>, trace = []\<rparr>)
           = (Some \<lparr>ManagementState = Unmanaged\<rparr>,
              Some (st_status (exampleStore [])), [], None)"
    by (simp add: store_simps)
  have r: "OperatorGet storeClients
             (world \<lparr>world = (exampleStore [])\<lparr>st_spec := \<lparr>ManagementState = Removed\<rparr>\<rparr>, trace = []\<rparr>)
           = (Some \<lparr>ManagementState = Removed\<rparr>,
              Some (st_status (exampleStore [])), [], None)"
    by (simp add: store_simps)
  have m: "fst (sync storeClients exampleController \<lparr>world = exampleStore [], trace = []\<rparr>) = Return None
     \<and> length (trace (snd (sync storeClients exampleController \<lparr>world = exampleStore [], trace = []\<rparr>))) = 6"
    by (simp add: run_simps store_simps example_simps fmt_simps map_upd_neq)
  from sync_unmanaged_or_removed_noop [OF u, of exampleController]
       sync_unmanaged_or_removed_noop [OF r, of exampleController] m
  show ?thesis by simp
qed

subsection \<open>The marker comes first\<close>

lemma copyConfigMaps_trace:
  "\<exists>copies. trace (snd (copyConfigMaps k c r refs names s)) = trace s @ copies
            \<and> list_all (isCopyWith refs) copies"
proof (induction names arbitrary: s)
  case Nil
  show ?case by simp
next
  case (Cons name names)
  obtain obj changed err w' where
    r: "SyncConfigMap k (world s) (targetNamespace c) name (targetNamespace c) (nameFor name r) refs
          = ((obj, changed, err), w')"
    by (rule result_cases)
  define s' where "s' = logged s w' (SyncConfigMapCall (targetNamespace c) name (targetNamespace c)
                                   (nameFor name r) refs)"
  from Cons [of s'] obtain copies where
    t: "trace (snd (copyConfigMaps k c r refs names s')) = trace s' @ copies"
    and a: "list_all (isCopyWith refs) copies"
    by blast
  have ts: "trace s' = trace s @ [SyncConfigMapCall (targetNamespace c) name (targetNamespace c)
                                   (nameFor name r) refs]"
    by (simp add: s'_def logged_def)
  show ?case
  proof (cases err)
    case (Some e)
    with r ts show ?thesis by (simp add: s'_def [symmetric])
  next
    case None
    note noerr = None
    show ?thesis
    proof (cases obj)
      case None
      with r ts noerr show ?thesis by (simp add: s'_def [symmetric])
    next
      case (Some x)
      with r ts noerr t a show ?thesis by (simp add: s'_def [symmetric])
    qed
  qed
qed

lemma copySecrets_trace:
  "\<exists>copies. trace (snd (copySecrets k c r refs names s)) = trace s @ copies
            \<and> list_all (isCopyWith refs) copies"
proof (induction names arbitrary: s)
  case Nil
  show ?case by simp
next
  case (Cons name names)
  obtain obj changed err w' where
    r: "SyncSecret k (world s) (targetNamespace c) name (targetNamespace c) (nameFor name r) refs
          = ((obj, changed, err), w')"
    by (rule result_cases)
  define s' where "s' = logged s w' (SyncSecretCall (targetNamespace c) name (targetNamespace c)
                                   (nameFor name r) refs)"
  from Cons [of s'] obtain copies where
    t: "trace (snd (copySecrets k c r refs names s')) = trace s' @ copies"
    and a: "list_all (isCopyWith refs) copies"
    by blast
  have ts: "trace s' = trace s @ [SyncSecretCall (targetNamespace c) name (targetNamespace c)
                                   (nameFor name r) refs]"
    by (simp add: s'_def logged_def)
  show ?case
  proof (cases err)
    case (Some e)
    with r ts show ?thesis by (simp add: s'_def [symmetric])
  next
    case None
    note noerr = None
    show ?thesis
    proof (cases obj)
      case None
      with r ts noerr show ?thesis by (simp add: s'_def [symmetric])
    next
      case (Some x)
      with r ts noerr t a show ?thesis by (simp add: s'_def [symmetric])
    qed
  qed
qed

text \<open>
  Claim C8. In every execution of \<^verbatim>\<open>createNewRevision(r)\<close> the first call is the apply of
  the marker: the config map named \<^verbatim>\<open>revision-status-<r>\<close> with data
  \<^verbatim>\<open>{status: InProgress, revision: r}\<close>. Every call after it is a snapshot copy, there is
  none unless the apply returned an object and no error, and every copy carries the owner
  reference built from the object the apply returned (its name and UID).
\<close>

theorem createNewRevision_marker_first:
  "\<exists>copies.
      trace (snd (createNewRevision k c r s))
        = trace s @ ApplyConfigMapCall (statusConfigMapFor c r) # copies
      \<and> (case fst (ApplyConfigMap k (world s) (statusConfigMapFor c r)) of
            (Some marker, changed, None) \<Rightarrow> list_all (isCopyWith (ownerRefsOf marker)) copies
          | _ \<Rightarrow> copies = [])
      \<and> cm_Name (statusConfigMapFor c r) = ''revision-status-'' @ fmt_d (sint r)
      \<and> cm_Data (statusConfigMapFor c r)
          = [''status'' \<mapsto> ''InProgress'', ''revision'' \<mapsto> fmt_d (sint r)]"
proof -
  obtain marker changed err w' where
    a: "ApplyConfigMap k (world s) (statusConfigMapFor c r) = ((marker, changed, err), w')"
    by (rule result_cases)
  define s1 where "s1 = logged s w' (ApplyConfigMapCall (statusConfigMapFor c r))"
  have ts: "trace s1 = trace s @ [ApplyConfigMapCall (statusConfigMapFor c r)]"
    by (simp add: s1_def logged_def)
  have nm: "cm_Name (statusConfigMapFor c r) = ''revision-status-'' @ fmt_d (sint r)
      \<and> cm_Data (statusConfigMapFor c r)
          = [''status'' \<mapsto> ''InProgress'', ''revision'' \<mapsto> fmt_d (sint r)]"
    by (simp add: statusConfigMapFor_def nameFor_def)
  show ?thesis
  proof (cases err)
    case (Some e)
    with a ts nm show ?thesis
      by (simp add: createNewRevision_def s1_def [symmetric] split: option.splits)
  next
    case None
    note noerr = None
    show ?thesis
    proof (cases marker)
      case None
      with a ts nm noerr show ?thesis
        by (simp add: createNewRevision_def s1_def [symmetric])
    next
      case (Some scm)
      obtain cs where
        c1: "trace (snd (copyConfigMaps k c r (ownerRefsOf scm) (configMaps c) s1)) = trace s1 @ cs"
        and c2: "list_all (isCopyWith (ownerRefsOf scm)) cs"
        using copyConfigMaps_trace by blast
      obtain e2 s2 where
        r2: "copyConfigMaps k c r (ownerRefsOf scm) (configMaps c) s1 = (e2, s2)"
        by (metis surj_pair)
      obtain ds where
        d1: "trace (snd (copySecrets k c r (ownerRefsOf scm) (secrets c) s2)) = trace s2 @ ds"
        and d2: "list_all (isCopyWith (ownerRefsOf scm)) ds"
        using copySecrets_trace by blast
      obtain e3 s3 where
        r3: "copySecrets k c r (ownerRefsOf scm) (secrets c) s2 = (e3, s3)"
        by (metis surj_pair)
      from a noerr Some r2 r3 c1 c2 d1 d2 ts nm show ?thesis
        by (cases e2; cases e3) (simp_all add: createNewRevision_def s1_def [symmetric])
    qed
  qed
qed

theorem createNewRevision_marker_first_witness:
  "(\<exists>copies.
      trace (snd (createNewRevision storeClients exampleController 2 (exampleRun [])))
        = trace (exampleRun []) @ ApplyConfigMapCall (statusConfigMapFor exampleController 2) # copies
      \<and> (case fst (ApplyConfigMap storeClients (world (exampleRun []))
                      (statusConfigMapFor exampleController 2)) of
            (Some marker, changed, None) \<Rightarrow> list_all (isCopyWith (ownerRefsOf marker)) copies
          | _ \<Rightarrow> copies = [])
      \<and> cm_Name (statusConfigMapFor exampleController 2) = ''revision-status-'' @ fmt_d (sint (2 :: int32))
      \<and> cm_Data (statusConfigMapFor exampleController 2)
          = [''status'' \<mapsto> ''InProgress'', ''revision'' \<mapsto> fmt_d (sint (2 :: int32))])
   \<and> trace (snd (createNewRevision storeClients exampleController 2 (exampleRun [])))
       = [ApplyConfigMapCall
            \<lparr>cm_APIVersion = [], cm_Kind = [], cm_Namespace = ''target'',
             cm_Name = ''revision-status-2'', cm_UID = [],
             cm_Data = [''status'' \<mapsto> ''InProgress'', ''revision'' \<mapsto> ''2'']\<rparr>,
          SyncConfigMapCall ''target'' ''config'' ''target'' ''config-2''
            [\<lparr>or_APIVersion = ''v1'', or_Kind = ''ConfigMap'', or_Name = ''revision-status-2'',
              or_UID = ''uid-target-revision-status-2''\<rparr>],
          SyncSecretCall ''target'' ''key'' ''target'' ''key-2''
            [\<lparr>or_APIVersion = ''v1'', or_Kind = ''ConfigMap'', or_Name = ''revision-status-2'',
              or_UID = ''uid-target-revision-status-2''\<rparr>]]
   \<and> fst (createNewRevision storeClients exampleController 2
             (exampleRun [Some (OtherError ''apply failed'')]))
       = Return (Some (OtherError ''apply failed''))
   \<and> trace (snd (createNewRevision storeClients exampleController 2
                    (exampleRun [Some (OtherError ''apply failed'')])))
       = [ApplyConfigMapCall
            \<lparr>cm_APIVersion = [], cm_Kind = [], cm_Namespace = ''target'',
             cm_Name = ''revision-status-2'', cm_UID = [],
             cm_Data = [''status'' \<mapsto> ''InProgress'', ''revision'' \<mapsto> ''2'']\<rparr>]"
proof (intro conjI)
  show "\<exists>copies.
      trace (snd (createNewRevision storeClients exampleController 2 (exampleRun [])))
        = trace (exampleRun []) @ ApplyConfigMapCall (statusConfigMapFor exampleController 2) # copies
      \<and> (case fst (ApplyConfigMap storeClients (world (exampleRun []))
                      (statusConfigMapFor exampleController 2)) of
            (Some marker, changed, None) \<Rightarrow> list_all (isCopyWith (ownerRefsOf marker)) copies
          | _ \<Rightarrow> copies = [])
      \<and> cm_Name (statusConfigMapFor exampleController 2) = ''revision-status-'' @ fmt_d (sint (2 :: int32))
      \<and> cm_Data (statusConfigMapFor exampleController 2)
          = [''status'' \<mapsto> ''InProgress'', ''revision'' \<mapsto> fmt_d (sint (2 :: int32))]"
    by (rule createNewRevision_marker_first)
qed (simp_all add: run_simps store_simps example_simps fmt_simps)

subsection \<open>Fetch errors other than NotFound\<close>

lemma notFoundText_ignoring:
  "notFoundText (if IsNotFound err then err else None) = notFoundText err"
  by (cases err) auto

lemma GetConfigMap_ignoring:
  "GetConfigMap (ignoringOtherErrors k) w ns name =
     (case GetConfigMap k w ns name of (obj, err) \<Rightarrow> (obj, if IsNotFound err then err else None))"
  by (simp add: ignoringOtherErrors_def)

lemma GetSecret_ignoring:
  "GetSecret (ignoringOtherErrors k) w ns name =
     (case GetSecret k w ns name of (obj, err) \<Rightarrow> (obj, if IsNotFound err then err else None))"
  by (simp add: ignoringOtherErrors_def)

lemma GetConfigMap_failing: "GetConfigMap (readsFailWith e k) w ns name = (Some zeroConfigMap, Some e)"
  by (simp add: readsFailWith_def)

lemma GetSecret_failing: "GetSecret (readsFailWith e k) w ns name = (Some zeroSecret, Some e)"
  by (simp add: readsFailWith_def)

lemma currentConfigMaps_ignoring:
  "currentConfigMaps (ignoringOtherErrors k) w ns r names = currentConfigMaps k w ns r names"
proof (induction names)
  case Nil
  show ?case by simp
next
  case (Cons name names)
  then show ?case
    by (cases "GetConfigMap k w ns name"; cases "GetConfigMap k w ns (nameFor name r)";
        cases "GetSecret k w ns name"; cases "GetSecret k w ns (nameFor name r)")
       (simp add: GetConfigMap_ignoring GetSecret_ignoring notFoundText_ignoring split: option.splits)
qed

lemma currentSecrets_ignoring:
  "currentSecrets (ignoringOtherErrors k) w ns r names = currentSecrets k w ns r names"
proof (induction names)
  case Nil
  show ?case by simp
next
  case (Cons name names)
  then show ?case
    by (cases "GetConfigMap k w ns name"; cases "GetConfigMap k w ns (nameFor name r)";
        cases "GetSecret k w ns name"; cases "GetSecret k w ns (nameFor name r)")
       (simp add: GetConfigMap_ignoring GetSecret_ignoring notFoundText_ignoring split: option.splits)
qed

lemma currentConfigMaps_failing:
  "\<not> IsNotFound (Some e) \<Longrightarrow> currentConfigMaps (readsFailWith e k) w ns r names = Return None"
  by (induction names) (simp_all add: GetConfigMap_failing GetSecret_failing zeroConfigMap_def zeroSecret_def)

lemma currentSecrets_failing:
  "\<not> IsNotFound (Some e) \<Longrightarrow> currentSecrets (readsFailWith e k) w ns r names = Return None"
  by (induction names) (simp_all add: GetConfigMap_failing GetSecret_failing zeroConfigMap_def zeroSecret_def)

text \<open>
  Claim C9. \<^verbatim>\<open>isLatestRevisionCurrent\<close> lets only a NotFound error of a fetch decide.
  Any other error is dropped: the result is the one obtained when every such error is
  replaced by the nil error, so the comparison goes on with the objects that came with
  it. A store whose fetches all fail with an error other than NotFound, and return
  zero-valued objects, therefore makes the engine report current with the empty reason.
\<close>

theorem isLatestRevisionCurrent_other_errors_discarded:
  "isLatestRevisionCurrent (ignoringOtherErrors k) c w r = isLatestRevisionCurrent k c w r
   \<and> (\<not> IsNotFound (Some e) \<longrightarrow>
        isLatestRevisionCurrent (readsFailWith e k) c w r = Return (True, ''''))"
  unfolding isLatestRevisionCurrent_def currentConfigMaps_ignoring currentSecrets_ignoring
  by (simp add: currentConfigMaps_failing currentSecrets_failing)

theorem isLatestRevisionCurrent_other_errors_discarded_witness:
  "\<not> IsNotFound (Some (OtherError ''the server is currently unable to handle the request''))
   \<and> isLatestRevisionCurrent
        (readsFailWith (OtherError ''the server is currently unable to handle the request'') storeClients)
        exampleController (exampleStore []) 1 = Return (True, '''')
   \<and> isLatestRevisionCurrent storeClients exampleController (exampleStore []) 1
        = Return (False, ''configmap/config has changed'')"
proof -
  have "isLatestRevisionCurrent storeClients exampleController (exampleStore []) 1
        = Return (False, ''configmap/config has changed'')"
    by (simp add: isLatestRevisionCurrent_def store_simps example_simps fmt_simps map_upd_neq)
  with isLatestRevisionCurrent_other_errors_discarded
         [of storeClients exampleController "exampleStore []" 1
             "OtherError ''the server is currently unable to handle the request''"]
  show ?thesis by simp
qed

subsection \<open>The event after a successful creation\<close>

text \<open>
  Claim C10. After a creation that succeeded and a status update that was written, the
  \<^verbatim>\<open>RevisionCreate\<close> event reports \<^verbatim>\<open>LatestAvailableRevision\<close> of the status copy taken
  before the update, that is the old revision number, and not \<^verbatim>\<open>nextRevision\<close>, the
  revision just established: the update closure mutates its own argument, not the copy
  the message is formatted from. The two numbers print differently.
\<close>

theorem createRevisionIfNeeded_event_reports_old_revision:
  assumes "isLatestRevisionCurrent k c (world s) (LatestAvailableRevision st) = Return (False, reason)"
      and "createNewRevision k c (LatestAvailableRevision st + 1) s = (Return None, s1)"
      and "UpdateStatus k (world s1)
             [UpdateConditionFn notFailing, SetLatestAvailableRevision (LatestAvailableRevision st + 1)]
           = ((newStatus, True, None), w2)"
  shows "createRevisionIfNeeded k c spec (Some st) rv s =
           (Return (False, None),
            \<lparr>world = w2,
             trace = trace s1 @
               [UpdateStatusCall
                  [UpdateConditionFn notFailing, SetLatestAvailableRevision (LatestAvailableRevision st + 1)],
                Eventf ''RevisionCreate''
                  (''Revision '' @ fmt_d (sint (LatestAvailableRevision st))
                     @ '' created because '' @ reason)]\<rparr>)
         \<and> fmt_d (sint (LatestAvailableRevision st)) \<noteq> fmt_d (sint (LatestAvailableRevision st + 1))"
  using assms fmt_d_next_differs [of "LatestAvailableRevision st"]
  by (simp add: createRevisionIfNeeded_def logged_def Let_def)

theorem createRevisionIfNeeded_event_reports_old_revision_witness:
  "fst (createRevisionIfNeeded storeClients exampleController \<lparr>ManagementState = Managed\<rparr>
          (Some \<lparr>LatestAvailableRevision = 1, Conditions = []\<rparr>) [] (exampleRun []))
     = Return (False, None)
   \<and> last (trace (snd (createRevisionIfNeeded storeClients exampleController \<lparr>ManagementState = Managed\<rparr>
          (Some \<lparr>LatestAvailableRevision = 1, Conditions = []\<rparr>) [] (exampleRun []))))
     = Eventf ''RevisionCreate'' ''Revision 1 created because configmap/config has changed''
   \<and> LatestAvailableRevision (st_status (world (snd (createRevisionIfNeeded storeClients exampleController
          \<lparr>ManagementState = Managed\<rparr> (Some \<lparr>LatestAvailableRevision = 1, Conditions = []\<rparr>) []
          (exampleRun []))))) = 2"
proof -
  define st where "st = \<lparr>LatestAvailableRevision = 1 :: int32, Conditions = []\<rparr>"
  define s1 where "s1 = snd (createNewRevision storeClients exampleController 2 (exampleRun []))"
  define fns where "fns = [UpdateConditionFn notFailing, SetLatestAvailableRevision 2]"
  define w2 where "w2 = snd (UpdateStatus storeClients (world s1) fns)"
  define ns where "ns = fst (fst (UpdateStatus storeClients (world s1) fns))"
  have one: "LatestAvailableRevision st + 1 = 2" by (simp add: st_def)
  have h1: "isLatestRevisionCurrent storeClients exampleController (world (exampleRun []))
              (LatestAvailableRevision st) = Return (False, ''configmap/config has changed'')"
    by (simp add: st_def example_decision exampleRun_def)
  have "fst (createNewRevision storeClients exampleController 2 (exampleRun [])) = Return None"
    by (simp add: run_simps store_simps example_simps fmt_simps)
  then have h2: "createNewRevision storeClients exampleController (LatestAvailableRevision st + 1)
                   (exampleRun []) = (Return None, s1)"
    unfolding one s1_def by (simp add: prod_eq_iff)
  have "snd (fst (UpdateStatus storeClients (world s1) fns)) = (True, None)"
    unfolding s1_def fns_def by (simp add: run_simps store_simps example_simps fmt_simps)
  then have h3: "UpdateStatus storeClients (world s1)
                   [UpdateConditionFn notFailing, SetLatestAvailableRevision (LatestAvailableRevision st + 1)]
                 = ((ns, True, None), w2)"
    unfolding one ns_def w2_def fns_def by (simp add: prod_eq_iff)
  have lar: "LatestAvailableRevision (st_status w2) = 2"
    unfolding w2_def s1_def fns_def by (simp add: run_simps store_simps example_simps fmt_simps)
  from createRevisionIfNeeded_event_reports_old_revision [OF h1 h2 h3] lar
  show ?thesis
    unfolding st_def by (simp add: fmt_simps)
qed

end
